theory Spec2Isabelle
  imports Main "HOL-Library.AList"
begin

section \<open>The bastion tunnel session manager\<close>

text \<open>
  A shallow embedding of \<^verbatim>\<open>scripts/python/common.py\<close>, of the tunnel functions of
  \<^verbatim>\<open>scripts/python/backend_sessions.py\<close> and of \<^verbatim>\<open>connect_session\<close> and
  \<^verbatim>\<open>delete_session\<close> of \<^verbatim>\<open>scripts/python/bastion.py\<close>.

  The Python code acts on four things outside itself: the OCI command line client, the
  process table of the operating system, the directory \<^verbatim>\<open>TUNNEL_DIR\<close> and the terminal.
  What the outside answers is a parameter (\<open>env\<close>), what the code changes or leaves
  behind is state (\<open>world\<close>), passed through every function and returned updated. An
  exception is a value: every function returns an \<open>outcome\<close> beside the world.
\<close>

subsection \<open>Exceptions and outcomes\<close>

datatype errno = ESRCH | EPERM | ENOENT

text \<open>
  \<open>OSError ESRCH\<close> is Python's \<^verbatim>\<open>ProcessLookupError\<close>, \<open>OSError EPERM\<close> its
  \<^verbatim>\<open>PermissionError\<close> and \<open>OSError ENOENT\<close> its \<^verbatim>\<open>FileNotFoundError\<close>: all three are
  subclasses of \<^verbatim>\<open>OSError\<close>, which is the class the handlers of the source name.
\<close>

datatype exn =
    SystemExit int
  | CalledProcessError
  | KeyError string
  | EOFError
  | OSError errno
  | OverflowError

datatype signal = SIG0 | SIGTERM

text \<open>
  \<open>Replaced argv\<close> is the outcome of \<^verbatim>\<open>os.execvp\<close>: the process image is replaced by
  \<open>argv\<close> and control never comes back to the caller. \<open>Killed sg\<close> is the end of the
  Python process by a signal it sent to itself, after which nothing of the function runs.
\<close>

datatype 'a outcome = Return 'a | Raise exn | Replaced "string list" | Killed signal

text \<open>
  The exit status of the Python process: 0 on a normal return, the argument of
  \<^verbatim>\<open>sys.exit\<close>, and 1 for any other exception that reaches the top level. After
  \<^verbatim>\<open>os.execvp\<close> the status is that of the new program, which the model does not know,
  and a process ended by a signal has no exit status.
\<close>

fun exit_status :: "'a outcome \<Rightarrow> int option" where
  "exit_status (Return _) = Some 0"
| "exit_status (Raise (SystemExit n)) = Some n"
| "exit_status (Raise _) = Some 1"
| "exit_status (Replaced _) = None"
| "exit_status (Killed _) = None"

subsection \<open>Data\<close>

text \<open>
  The dictionary that \<^verbatim>\<open>start_tunnel\<close> dumps into \<^verbatim>\<open>tunnel-<local_port>.json\<close>. The JSON
  text itself is not modelled: \<^verbatim>\<open>json.load\<close> gives back the dictionary that
  \<^verbatim>\<open>json.dump\<close> wrote, and a file of the directory holds such a dictionary. The
  process id is a Python integer: \<^verbatim>\<open>start_tunnel\<close> writes the id of a child, and a file
  made by other hands can hold any integer.
\<close>

record tunnel =
  rec_pid :: int
  rec_session_id :: string
  rec_local_port :: string
  rec_target_host :: string
  rec_target_port :: string
  rec_bastion_endpoint :: string

text \<open>
  The object under the key \<^verbatim>\<open>"data"\<close> of an answer of the OCI client: its members that
  are strings, and the member \<^verbatim>\<open>"ssh-metadata"\<close>, an object of strings, when there is one.
\<close>

record api_data =
  members :: "(string \<times> string) list"
  ssh_metadata :: "(string \<times> string) list option"

text \<open>
  What the OCI client wrote to its standard output: nothing, text that \<^verbatim>\<open>json.loads\<close>
  rejects (with the message of the decoder), or a JSON object, of which the model keeps
  the member \<^verbatim>\<open>"data"\<close> when it has one.
\<close>

datatype stdout = Empty | Garbage string | Object "api_data option"

record cli_result =
  returncode :: int
  stderr :: string
  stdout :: stdout

datatype event =
    Info string
  | Success string
  | Warn string
  | Error string
  | Print string
  | Prompt string
  | Listed int string string string

text \<open>
  The environment of one invocation: the configuration read from the environment
  variables at import time, and the answers of the outside world. The OCI client answers
  a command line given the command lines it was run with before; the operating system
  chooses the process id of a child given the process table, and answers a signal sent
  to a process group (\<open>killpg\<close>, for a negative process id) with an outcome and the
  process table it leaves.
\<close>

record env =
  OCI_PROFILE :: string
  BASTION_OCID :: string
  SSH_KEY :: string
  DEFAULT_TTL :: int
  expanduser :: "string \<Rightarrow> string"
  on_path :: "string \<Rightarrow> bool"
  oci_cli :: "string list list \<Rightarrow> string list \<Rightarrow> cli_result"
  new_pid :: "(nat \<times> nat) list \<Rightarrow> nat"
  killpg :: "int \<Rightarrow> signal \<Rightarrow> (nat \<times> nat) list \<Rightarrow> unit outcome \<times> (nat \<times> nat) list"
  euid :: nat

text \<open>
  The directory \<^verbatim>\<open>TUNNEL_DIR\<close> exists and is the caller's to write, so that
  \<^verbatim>\<open>ensure_tunnel_dir\<close> does nothing, and it is flat.

  The state: the files of \<^verbatim>\<open>TUNNEL_DIR\<close> (name and content), the process table (process
  id and owner), the lines the user will type, and what the invocation has done so far:
  the OCI command lines run, the children started with \<^verbatim>\<open>subprocess.Popen\<close>, the shell
  commands run with \<^verbatim>\<open>os.system\<close>, the seconds slept and the messages written. \<open>Listed\<close> is the line that
  \<^verbatim>\<open>list_tunnels\<close> prints for a running tunnel, with the values it interpolates
  (\<open>render\<close> below gives its text).
\<close>

record world =
  files :: "(string \<times> tunnel) list"
  procs :: "(nat \<times> nat) list"
  stdin :: "string list"
  oci_log :: "string list list"
  spawned :: "string list list"
  shell :: "string list"
  slept :: nat
  out :: "event list"

subsection \<open>Sequencing\<close>

definition seq ::
  "'a outcome \<times> world \<Rightarrow> ('a \<Rightarrow> world \<Rightarrow> 'b outcome \<times> world) \<Rightarrow> 'b outcome \<times> world" where
  "seq m f =
     (case m of
        (Return x, w) \<Rightarrow> f x w
      | (Raise e, w) \<Rightarrow> (Raise e, w)
      | (Replaced argv, w) \<Rightarrow> (Replaced argv, w)
      | (Killed sg, w) \<Rightarrow> (Killed sg, w))"

subsection \<open>Strings\<close>

fun digits :: "nat \<Rightarrow> string" where
  "digits n =
     (if n < 10 then [char_of (48 + n)]
      else digits (n div 10) @ [char_of (48 + n mod 10)])"

declare digits.simps [simp del]

definition str_int :: "int \<Rightarrow> string" where
  "str_int i = (if i < 0 then ''-'' @ digits (nat (- i)) else digits (nat i))"

fun join :: "string \<Rightarrow> string list \<Rightarrow> string" where
  "join sep [] = []"
| "join sep [x] = x"
| "join sep (x # y # ys) = x @ sep @ join sep (y # ys)"

definition lower_char :: "char \<Rightarrow> char" where
  "lower_char c =
     (let n = (of_char c :: nat) in if 65 \<le> n \<and> n \<le> 90 then char_of (n + 32) else c)"

definition lower :: "string \<Rightarrow> string" where
  "lower s = map lower_char s"

definition tab :: string where
  "tab = [char_of (9 :: nat)]"

text \<open>
  The text of a message as the terminal receives it: the log functions put their tag
  between the colour code of \<^verbatim>\<open>Colors\<close> and the reset code. The model keeps one stream
  for standard output and standard error, on which \<^verbatim>\<open>log_error\<close> writes.
\<close>

definition colour :: "string \<Rightarrow> string \<Rightarrow> string" where
  "colour code tag = [char_of (27 :: nat)] @ code @ tag @ [char_of (27 :: nat)] @ ''[0m''"

fun render :: "event \<Rightarrow> string" where
  "render (Info m) = colour ''[0;34m'' ''[INFO]'' @ '' '' @ m"
| "render (Success m) = colour ''[0;32m'' ''[SUCCESS]'' @ '' '' @ m"
| "render (Warn m) = colour ''[1;33m'' ''[WARN]'' @ '' '' @ m"
| "render (Error m) = colour ''[0;31m'' ''[ERROR]'' @ '' '' @ m"
| "render (Print m) = m"
| "render (Prompt m) = m"
| "render (Listed p local_port target_host target_port) =
     str_int p @ tab @ ''localhost:'' @ local_port @ tab @ ''->'' @ tab
     @ target_host @ '':'' @ target_port @ tab @ ''RUNNING''"

subsection \<open>common.py\<close>

definition log_info :: "string \<Rightarrow> world \<Rightarrow> world" where
  "log_info message w = w\<lparr>out := out w @ [Info message]\<rparr>"

definition log_success :: "string \<Rightarrow> world \<Rightarrow> world" where
  "log_success message w = w\<lparr>out := out w @ [Success message]\<rparr>"

definition log_warn :: "string \<Rightarrow> world \<Rightarrow> world" where
  "log_warn message w = w\<lparr>out := out w @ [Warn message]\<rparr>"

definition log_error :: "string \<Rightarrow> world \<Rightarrow> world" where
  "log_error message w = w\<lparr>out := out w @ [Error message]\<rparr>"

definition print :: "string \<Rightarrow> world \<Rightarrow> world" where
  "print line w = w\<lparr>out := out w @ [Print line]\<rparr>"

text \<open>
  \<^verbatim>\<open>run_oci_command\<close>. \<^verbatim>\<open>subprocess.run\<close> raises \<^verbatim>\<open>FileNotFoundError\<close> when there is no
  \<^verbatim>\<open>oci\<close> program, which no handler of the function catches, and
  \<^verbatim>\<open>CalledProcessError\<close> on a status other than 0 when \<open>check\<close> is set, which the
  handler logs and raises again. The result is \<open>None\<close>, or the parsed object (here its
  member \<^verbatim>\<open>"data"\<close>, if any).
\<close>

definition run_oci_command ::
  "env \<Rightarrow> string list \<Rightarrow> string \<Rightarrow> bool \<Rightarrow> bool \<Rightarrow> world
     \<Rightarrow> api_data option option outcome \<times> world" where
  "run_oci_command E args profile output_json check w =
     (let cmd = [''oci''] @ args @ [''--profile'', profile]
                @ (if output_json then [''--output'', ''json''] else [])
      in if \<not> on_path E ''oci'' then (Raise (OSError ENOENT), w)
         else
           let result = oci_cli E (oci_log w) cmd;
               w1 = w\<lparr>oci_log := oci_log w @ [cmd]\<rparr>
           in if check \<and> returncode result \<noteq> 0 then
                let w2 = log_error (''Command failed: '' @ join '' '' cmd) w1;
                    w3 = (if stderr result \<noteq> [] then log_error (stderr result) w2 else w2)
                in (Raise CalledProcessError, w3)
              else if output_json then
                (case stdout result of
                   Empty \<Rightarrow> (Return None, w1)
                 | Garbage e \<Rightarrow> (Return None, log_error (''Failed to parse JSON output: '' @ e) w1)
                 | Object obj \<Rightarrow> (Return (Some obj), w1))
              else (Return None, w1))"

text \<open>
  \<^verbatim>\<open>confirm_action\<close>: \<^verbatim>\<open>input\<close> writes the prompt, reads one line, and raises
  \<^verbatim>\<open>EOFError\<close> at the end of the input.
\<close>

definition confirm_action :: "string \<Rightarrow> world \<Rightarrow> bool outcome \<times> world" where
  "confirm_action message w =
     (let w1 = w\<lparr>out := out w @ [Prompt (message @ '' (y/N): '')]\<rparr>
      in case stdin w1 of
           [] \<Rightarrow> (Raise EOFError, w1)
         | response # rest \<Rightarrow>
             (Return (lower response = ''y'' \<or> lower response = ''yes''), w1\<lparr>stdin := rest\<rparr>))"

subsection \<open>The operating system\<close>

text \<open>
  \<^verbatim>\<open>os.kill(pid, sig)\<close>. The process id is converted to the C type \<^verbatim>\<open>pid_t\<close>, 32 bits
  with a sign: outside that range the call raises \<^verbatim>\<open>OverflowError\<close>, which is not an
  \<^verbatim>\<open>OSError\<close>. A negative id names a process group, and the answer is the operating
  system's. The id 0 names the group of the caller: signal 0 finds the caller itself
  there, and \<^verbatim>\<open>SIGTERM\<close> ends the caller with the rest of its group, which the model does
  not follow further. A positive id names one process: \<^verbatim>\<open>ProcessLookupError\<close> when no
  process has this id, \<^verbatim>\<open>PermissionError\<close> when the process belongs to another user and
  the caller is not root. Signal 0 is only the check; \<^verbatim>\<open>SIGTERM\<close>, once delivered, ends
  the forwarding client, which does not handle it.
\<close>

definition os_kill :: "env \<Rightarrow> int \<Rightarrow> signal \<Rightarrow> world \<Rightarrow> unit outcome \<times> world" where
  "os_kill E p sg w =
     (if p < - 2147483648 \<or> 2147483647 < p then (Raise OverflowError, w)
      else if p < 0 then
        (fst (killpg E p sg (procs w)), w\<lparr>procs := snd (killpg E p sg (procs w))\<rparr>)
      else if p = 0 then
        (if sg = SIGTERM then (Killed SIGTERM, w) else (Return (), w))
      else
        (case map_of (procs w) (nat p) of
           None \<Rightarrow> (Raise (OSError ESRCH), w)
         | Some owner \<Rightarrow>
             if euid E = 0 \<or> euid E = owner then
               (Return (),
                if sg = SIGTERM then w\<lparr>procs := AList.delete (nat p) (procs w)\<rparr> else w)
             else (Raise (OSError EPERM), w)))"

definition strerror :: "errno \<Rightarrow> string" where
  "strerror e =
     (case e of
        ESRCH \<Rightarrow> ''[Errno 3] No such process''
      | EPERM \<Rightarrow> ''[Errno 1] Operation not permitted''
      | ENOENT \<Rightarrow> ''[Errno 2] No such file or directory'')"

text \<open>
  \<^verbatim>\<open>subprocess.Popen(argv, ...)\<close>: \<^verbatim>\<open>FileNotFoundError\<close> when the program is not found,
  otherwise a child of the caller with the process id the operating system chose.
\<close>

definition Popen :: "env \<Rightarrow> string list \<Rightarrow> world \<Rightarrow> nat outcome \<times> world" where
  "Popen E argv w =
     (if argv = [] \<or> \<not> on_path E (hd argv) then (Raise (OSError ENOENT), w)
      else
        let p = new_pid E (procs w)
        in (Return p, w\<lparr>procs := AList.update p (euid E) (procs w),
                        spawned := spawned w @ [argv]\<rparr>))"

definition execvp :: "env \<Rightarrow> string \<Rightarrow> string list \<Rightarrow> world \<Rightarrow> 'a outcome \<times> world" where
  "execvp E file argv w =
     (if \<not> on_path E file then (Raise (OSError ENOENT), w) else (Replaced argv, w))"

definition os_system :: "string \<Rightarrow> world \<Rightarrow> world" where
  "os_system command w = w\<lparr>shell := shell w @ [command]\<rparr>"

definition sleep :: "nat \<Rightarrow> world \<Rightarrow> world" where
  "sleep n w = w\<lparr>slept := slept w + n\<rparr>"

subsection \<open>backend_sessions.py: sessions and tunnels\<close>

text \<open>Python's \<^verbatim>\<open>x or y\<close> on an optional string: \<open>y\<close> when \<open>x\<close> is \<^verbatim>\<open>None\<close> or empty.\<close>

definition or_else :: "string option \<Rightarrow> string \<Rightarrow> string" where
  "or_else x y = (case x of None \<Rightarrow> y | Some s \<Rightarrow> if s = [] then y else s)"

definition create_port_forward_session ::
  "env \<Rightarrow> string \<Rightarrow> string \<Rightarrow> string \<Rightarrow> string option \<Rightarrow> world
     \<Rightarrow> string option outcome \<times> world" where
  "create_port_forward_session E target_host target_port session_name bastion_id w =
     (let bastion_id1 = or_else bastion_id (BASTION_OCID E)
      in if bastion_id1 = [] \<or> target_host = [] \<or> target_port = [] then
           (Return None, log_error ''Bastion ID, target host, and target port required'' w)
         else
           seq (run_oci_command E
                  [''bastion'', ''session'', ''create-port-forwarding'',
                   ''--bastion-id'', bastion_id1,
                   ''--target-private-ip'', target_host,
                   ''--target-port'', target_port,
                   ''--session-ttl-in-seconds'', str_int (DEFAULT_TTL E),
                   ''--display-name'', session_name,
                   ''--wait-for-state'', ''ACTIVE'']
                  (OCI_PROFILE E) True True
                  (log_info (''Creating port forward session to '' @ target_host @ '':''
                             @ target_port @ ''...'') w))
             (\<lambda>result w1.
                case result of
                  Some (Some data) \<Rightarrow>
                    (case map_of (members data) ''id'' of
                       None \<Rightarrow> (Raise (KeyError ''id''), w1)
                     | Some session_id \<Rightarrow>
                         (Return (Some session_id),
                          log_success (''Session created: '' @ session_id) w1))
                | _ \<Rightarrow> (Return None, w1)))"

text \<open>
  The name of the file of a local port in \<^verbatim>\<open>TUNNEL_DIR\<close>, and \<^verbatim>\<open>open(tunnel_file, 'w')\<close>
  with \<^verbatim>\<open>json.dump\<close>: the file is created or its content replaced. The directory is
  flat, so a name with a slash has no parent directory and \<^verbatim>\<open>open\<close> raises.
\<close>

definition tunnel_path :: "string \<Rightarrow> string" where
  "tunnel_path local_port = ''tunnel-'' @ local_port @ ''.json''"

definition write_file :: "string \<Rightarrow> tunnel \<Rightarrow> world \<Rightarrow> unit outcome \<times> world" where
  "write_file name data w =
     (if CHR ''/'' \<in> set name then (Raise (OSError ENOENT), w)
      else (Return (), w\<lparr>files := AList.update name data (files w)\<rparr>))"

text \<open>\<^verbatim>\<open>Path.unlink\<close> raises \<^verbatim>\<open>FileNotFoundError\<close> when there is no such file.\<close>

definition unlink :: "string \<Rightarrow> world \<Rightarrow> unit outcome \<times> world" where
  "unlink name w =
     (case map_of (files w) name of
        None \<Rightarrow> (Raise (OSError ENOENT), w)
      | Some _ \<Rightarrow> (Return (), w\<lparr>files := AList.delete name (files w)\<rparr>))"

definition ssh_cmd_of ::
  "string \<Rightarrow> string \<Rightarrow> string \<Rightarrow> string \<Rightarrow> string \<Rightarrow> string \<Rightarrow> string list" where
  "ssh_cmd_of session_id local_port target_host target_port bastion_endpoint ssh_key =
     [''ssh'', ''-N'',
      ''-L'', local_port @ '':'' @ target_host @ '':'' @ target_port,
      ''-p'', ''22'',
      session_id @ ''@'' @ bastion_endpoint,
      ''-i'', ssh_key,
      ''-o'', ''StrictHostKeyChecking=no'',
      ''-o'', ''UserKnownHostsFile=/dev/null'']"

definition start_tunnel ::
  "env \<Rightarrow> string \<Rightarrow> string \<Rightarrow> string \<Rightarrow> string \<Rightarrow> string option \<Rightarrow> bool \<Rightarrow> world
     \<Rightarrow> nat option outcome \<times> world" where
  "start_tunnel E session_id local_port target_host target_port ssh_key background w =
     (let ssh_key1 = or_else ssh_key (SSH_KEY E)
      in seq (run_oci_command E
                [''bastion'', ''session'', ''get'', ''--session-id'', session_id]
                (OCI_PROFILE E) True True w)
           (\<lambda>result w1.
              case result of
                Some (Some session) \<Rightarrow>
                  (case map_of (members session) ''bastion-id'' of
                     None \<Rightarrow> (Raise (KeyError ''bastion-id''), w1)
                   | Some bastion_id \<Rightarrow>
                       seq (run_oci_command E
                              [''bastion'', ''bastion'', ''get'', ''--bastion-id'', bastion_id]
                              (OCI_PROFILE E) True True w1)
                         (\<lambda>bastion_result w2.
                            case bastion_result of
                              Some (Some bastion) \<Rightarrow>
                                (case map_of (members bastion) ''bastion-endpoint'' of
                                   None \<Rightarrow> (Raise (KeyError ''bastion-endpoint''), w2)
                                 | Some bastion_endpoint \<Rightarrow>
                                     let ssh_key2 = expanduser E ssh_key1;
                                         ssh_cmd = ssh_cmd_of session_id local_port target_host
                                                     target_port bastion_endpoint ssh_key2
                                     in if background then
                                          seq (Popen E ssh_cmd w2)
                                            (\<lambda>p w3.
                                               seq (write_file (tunnel_path local_port)
                                                      \<lparr>rec_pid = int p,
                                                       rec_session_id = session_id,
                                                       rec_local_port = local_port,
                                                       rec_target_host = target_host,
                                                       rec_target_port = target_port,
                                                       rec_bastion_endpoint = bastion_endpoint\<rparr>
                                                      w3)
                                                 (\<lambda>_ w4.
                                                    (Return (Some p),
                                                     log_info (''Connect to: localhost:'' @ local_port)
                                                       (log_success
                                                          (''Tunnel started (PID: '' @ digits p @ '')'')
                                                          w4))))
                                        else
                                          execvp E ''ssh'' ssh_cmd
                                            (log_info ''Press Ctrl+C to close''
                                               (log_info
                                                  (''Starting tunnel: localhost:'' @ local_port
                                                   @ '' -> '' @ target_host @ '':'' @ target_port)
                                                  w2)))
                            | _ \<Rightarrow> (Return None, log_error ''Failed to get bastion details'' w2)))
              | _ \<Rightarrow> (Return None, log_error ''Failed to get session details'' w1)))"

subsection \<open>backend_sessions.py: the registry\<close>

text \<open>
  \<^verbatim>\<open>TUNNEL_DIR.glob("tunnel-*.json")\<close>: the names of the directory that start with
  \<^verbatim>\<open>tunnel-\<close> and end with \<^verbatim>\<open>.json\<close>, the star standing for any text, also none.
\<close>

definition glob_match :: "string \<Rightarrow> bool" where
  "glob_match name =
     (12 \<le> length name \<and> take 7 name = ''tunnel-''
      \<and> drop (length name - 5) name = ''.json'')"

definition glob :: "world \<Rightarrow> string list" where
  "glob w = filter glob_match (map fst (files w))"

text \<open>
  The loop of \<^verbatim>\<open>list_tunnels\<close> over the names found by \<^verbatim>\<open>glob\<close>: each file is opened
  when its turn comes, its process probed with signal 0, and on any \<^verbatim>\<open>OSError\<close> the
  file is unlinked and nothing printed.
\<close>

fun list_tunnels_loop :: "env \<Rightarrow> string list \<Rightarrow> world \<Rightarrow> unit outcome \<times> world" where
  "list_tunnels_loop E [] w = (Return (), w)"
| "list_tunnels_loop E (tunnel_file # rest) w =
     (case map_of (files w) tunnel_file of
        None \<Rightarrow> (Raise (OSError ENOENT), w)
      | Some data \<Rightarrow>
          (case os_kill E (rec_pid data) SIG0 w of
             (Return _, w1) \<Rightarrow>
               list_tunnels_loop E rest
                 (w1\<lparr>out := out w1 @ [Listed (rec_pid data) (rec_local_port data)
                                         (rec_target_host data) (rec_target_port data)]\<rparr>)
           | (Raise (OSError e), w1) \<Rightarrow>
               seq (unlink tunnel_file w1) (\<lambda>_ w2. list_tunnels_loop E rest w2)
           | (Raise e, w1) \<Rightarrow> (Raise e, w1)
           | (Replaced argv, w1) \<Rightarrow> (Replaced argv, w1)
           | (Killed sg, w1) \<Rightarrow> (Killed sg, w1)))"

definition list_tunnels :: "env \<Rightarrow> world \<Rightarrow> unit outcome \<times> world" where
  "list_tunnels E w =
     (let tunnels = glob w
      in if tunnels = [] then (Return (), log_info ''No active tunnels'' w)
         else list_tunnels_loop E tunnels (log_info ''Active tunnels:'' w))"

text \<open>
  Lines 261 to 267 of \<^verbatim>\<open>close_tunnel\<close>, the only place where the record of one port is
  looked up: \<open>None\<close> when \<^verbatim>\<open>tunnel_file.exists()\<close> is false, otherwise the loaded
  dictionary.
\<close>

definition read_tunnel :: "string \<Rightarrow> world \<Rightarrow> tunnel option" where
  "read_tunnel local_port w = map_of (files w) (tunnel_path local_port)"

definition close_tunnel :: "env \<Rightarrow> string \<Rightarrow> world \<Rightarrow> unit outcome \<times> world" where
  "close_tunnel E local_port w =
     (case read_tunnel local_port w of
        None \<Rightarrow> (Return (), log_error (''No tunnel found on port '' @ local_port) w)
      | Some data \<Rightarrow>
          (case os_kill E (rec_pid data) SIGTERM w of
             (Return _, w1) \<Rightarrow>
               unlink (tunnel_path local_port)
                 (log_success (''Tunnel closed (PID: '' @ str_int (rec_pid data) @ '')'') w1)
           | (Raise (OSError e), w1) \<Rightarrow>
               unlink (tunnel_path local_port)
                 (log_warn (''Process may already be dead: '' @ strerror e) w1)
           | (Raise e, w1) \<Rightarrow> (Raise e, w1)
           | (Replaced argv, w1) \<Rightarrow> (Replaced argv, w1)
           | (Killed sg, w1) \<Rightarrow> (Killed sg, w1)))"

fun close_all_tunnels_loop :: "env \<Rightarrow> string list \<Rightarrow> world \<Rightarrow> unit outcome \<times> world" where
  "close_all_tunnels_loop E [] w = (Return (), w)"
| "close_all_tunnels_loop E (tunnel_file # rest) w =
     (case map_of (files w) tunnel_file of
        None \<Rightarrow> (Raise (OSError ENOENT), w)
      | Some data \<Rightarrow>
          (case os_kill E (rec_pid data) SIGTERM w of
             (Return _, w1) \<Rightarrow>
               seq (unlink tunnel_file
                      (log_success (''Closed tunnel on port '' @ rec_local_port data) w1))
                 (\<lambda>_ w2. close_all_tunnels_loop E rest w2)
           | (Raise (OSError e), w1) \<Rightarrow>
               seq (unlink tunnel_file w1) (\<lambda>_ w2. close_all_tunnels_loop E rest w2)
           | (Raise e, w1) \<Rightarrow> (Raise e, w1)
           | (Replaced argv, w1) \<Rightarrow> (Replaced argv, w1)
           | (Killed sg, w1) \<Rightarrow> (Killed sg, w1)))"

definition close_all_tunnels :: "env \<Rightarrow> world \<Rightarrow> unit outcome \<times> world" where
  "close_all_tunnels E w =
     (let tunnels = glob w
      in if tunnels = [] then (Return (), log_info ''No tunnels to close'' w)
         else close_all_tunnels_loop E tunnels w)"

subsection \<open>backend_sessions.py: the helpers\<close>

text \<open>
  The helpers follow; \<^verbatim>\<open>not session_id\<close> holds for \<^verbatim>\<open>None\<close> and for the empty string,
  \<^verbatim>\<open>not pid\<close> for \<^verbatim>\<open>None\<close> and for 0. The optional arguments \<^verbatim>\<open>port\<close> and
  \<^verbatim>\<open>database\<close> of the Redis and MongoDB helpers have their defaults filled in by the
  caller.
\<close>

definition connect_postgres ::
  "env \<Rightarrow> string \<Rightarrow> string \<Rightarrow> string \<Rightarrow> string \<Rightarrow> string option \<Rightarrow> string option \<Rightarrow> world \<Rightarrow> unit outcome \<times> world" where
  "connect_postgres E host port database username local_port bastion_id w =
     (if host = [] \<or> port = [] \<or> database = [] \<or> username = [] then
        (Raise (SystemExit 1),
         log_error ''Usage: connect-postgres <host> <port> <database> <username> [local_port] [bastion_id]'' w)
      else
        let local_port1 = or_else local_port port
        in seq (create_port_forward_session E host port ''postgres-session'' bastion_id w)
             (\<lambda>session_id w1.
                case session_id of
                  None \<Rightarrow> (Raise (SystemExit 1), w1)
                | Some sid \<Rightarrow>
                    if sid = [] then (Raise (SystemExit 1), w1)
                    else
                      seq (start_tunnel E sid local_port1 host port None True w1)
                        (\<lambda>p w2.
                           if p = None \<or> p = Some 0 then (Raise (SystemExit 1), w2)
                           else
                             (Return (),
                              os_system (''psql -h localhost -p '' @ local_port1 @ '' -U '' @ username
                                         @ '' -d '' @ database)
                                (log_info ''Connecting to PostgreSQL...'' (sleep 2 w2))))))"

definition connect_mysql ::
  "env \<Rightarrow> string \<Rightarrow> string \<Rightarrow> string \<Rightarrow> string \<Rightarrow> string option \<Rightarrow> string option \<Rightarrow> world \<Rightarrow> unit outcome \<times> world" where
  "connect_mysql E host port database username local_port bastion_id w =
     (if host = [] \<or> port = [] \<or> database = [] \<or> username = [] then
        (Raise (SystemExit 1),
         log_error ''Usage: connect-mysql <host> <port> <database> <username> [local_port] [bastion_id]'' w)
      else
        let local_port1 = or_else local_port port
        in seq (create_port_forward_session E host port ''mysql-session'' bastion_id w)
             (\<lambda>session_id w1.
                case session_id of
                  None \<Rightarrow> (Raise (SystemExit 1), w1)
                | Some sid \<Rightarrow>
                    if sid = [] then (Raise (SystemExit 1), w1)
                    else
                      seq (start_tunnel E sid local_port1 host port None True w1)
                        (\<lambda>p w2.
                           if p = None \<or> p = Some 0 then (Raise (SystemExit 1), w2)
                           else
                             (Return (),
                              os_system (''mysql -h 127.0.0.1 -P '' @ local_port1 @ '' -u '' @ username
                                         @ '' -p '' @ database)
                                (log_info ''Connecting to MySQL...'' (sleep 2 w2))))))"

definition connect_redis ::
  "env \<Rightarrow> string \<Rightarrow> string \<Rightarrow> string option \<Rightarrow> string option \<Rightarrow> world \<Rightarrow> unit outcome \<times> world" where
  "connect_redis E host port local_port bastion_id w =
     (if host = [] then
        (Raise (SystemExit 1),
         log_error ''Usage: connect-redis <host> [port] [local_port] [bastion_id]'' w)
      else
        let local_port1 = or_else local_port port
        in seq (create_port_forward_session E host port ''redis-session'' bastion_id w)
             (\<lambda>session_id w1.
                case session_id of
                  None \<Rightarrow> (Raise (SystemExit 1), w1)
                | Some sid \<Rightarrow>
                    if sid = [] then (Raise (SystemExit 1), w1)
                    else
                      seq (start_tunnel E sid local_port1 host port None True w1)
                        (\<lambda>p w2.
                           if p = None \<or> p = Some 0 then (Raise (SystemExit 1), w2)
                           else
                             (Return (),
                              os_system (''redis-cli -h 127.0.0.1 -p '' @ local_port1)
                                (log_info ''Connecting to Redis...'' (sleep 2 w2))))))"

definition connect_mongodb ::
  "env \<Rightarrow> string \<Rightarrow> string \<Rightarrow> string \<Rightarrow> string option \<Rightarrow> string option \<Rightarrow> world \<Rightarrow> unit outcome \<times> world" where
  "connect_mongodb E host port database local_port bastion_id w =
     (if host = [] then
        (Raise (SystemExit 1),
         log_error ''Usage: connect-mongodb <host> [port] [database] [local_port] [bastion_id]'' w)
      else
        let local_port1 = or_else local_port port
        in seq (create_port_forward_session E host port ''mongodb-session'' bastion_id w)
             (\<lambda>session_id w1.
                case session_id of
                  None \<Rightarrow> (Raise (SystemExit 1), w1)
                | Some sid \<Rightarrow>
                    if sid = [] then (Raise (SystemExit 1), w1)
                    else
                      seq (start_tunnel E sid local_port1 host port None True w1)
                        (\<lambda>p w2.
                           if p = None \<or> p = Some 0 then (Raise (SystemExit 1), w2)
                           else
                             (Return (),
                              os_system (''mongosh mongodb://127.0.0.1:'' @ local_port1 @ ''/'' @ database)
                                (log_info ''Connecting to MongoDB...'' (sleep 2 w2))))))"

definition quick_tunnel ::
  "env \<Rightarrow> string \<Rightarrow> string \<Rightarrow> string option \<Rightarrow> string option \<Rightarrow> world \<Rightarrow> unit outcome \<times> world" where
  "quick_tunnel E target_host target_port local_port bastion_id w =
     (if target_host = [] \<or> target_port = [] then
        (Raise (SystemExit 1),
         log_error ''Usage: quick-tunnel <target_host> <target_port> [local_port] [bastion_id]'' w)
      else
        let local_port1 = or_else local_port target_port
        in seq (create_port_forward_session E target_host target_port ''quick-tunnel'' bastion_id w)
             (\<lambda>session_id w1.
                case session_id of
                  None \<Rightarrow> (Raise (SystemExit 1), w1)
                | Some sid \<Rightarrow>
                    if sid = [] then (Raise (SystemExit 1), w1)
                    else
                      seq (start_tunnel E sid local_port1 target_host target_port None True w1)
                        (\<lambda>_ w2. (Return (), w2))))"

subsection \<open>bastion.py\<close>

text \<open>
  \<^verbatim>\<open>str.replace\<close> for a pattern that is not empty, as both patterns of the source are:
  every occurrence, from the left, without overlap.
\<close>

fun replace :: "string \<Rightarrow> string \<Rightarrow> string \<Rightarrow> string" where
  "replace old new [] = []"
| "replace old new (c # cs) =
     (if old \<noteq> [] \<and> take (length old) (c # cs) = old
      then new @ replace old new (drop (length old - 1) cs)
      else c # replace old new cs)"

definition connect_session ::
  "env \<Rightarrow> string \<Rightarrow> string \<Rightarrow> string \<Rightarrow> world \<Rightarrow> unit outcome \<times> world" where
  "connect_session E session_id local_port ssh_key w =
     (if session_id = [] \<or> local_port = [] then
        (Raise (SystemExit 1), log_error ''Usage: connect <session_id> <local_port> [ssh_key]'' w)
      else
        seq (run_oci_command E
               [''bastion'', ''session'', ''get'', ''--session-id'', session_id]
               (OCI_PROFILE E) True True w)
          (\<lambda>result w1.
             case result of
               Some (Some session) \<Rightarrow>
                 (case map_of (members session) ''lifecycle-state'' of
                    None \<Rightarrow> (Raise (KeyError ''lifecycle-state''), w1)
                  | Some state \<Rightarrow>
                      if state \<noteq> ''ACTIVE'' then
                        (Raise (SystemExit 1),
                         log_error (''Session is not active (state: '' @ state @ '')'') w1)
                      else
                        let command =
                              (case ssh_metadata session of
                                 None \<Rightarrow> []
                               | Some md \<Rightarrow>
                                   (case map_of md ''command'' of None \<Rightarrow> [] | Some c \<Rightarrow> c))
                        in if command \<noteq> [] then
                             let w2 = log_info ''Connecting to session...'' w1;
                                 command1 = replace ''<localPort>'' local_port command;
                                 command2 = replace ''<privateKey>'' (expanduser E ssh_key) command1
                             in (Return (), os_system command2 (print (''Running: '' @ command2) w2))
                           else
                             (Return (), log_error ''No SSH command available for this session'' w1))
             | _ \<Rightarrow> (Raise (SystemExit 1), log_error ''Failed to get session details'' w1)))"

definition delete_session :: "env \<Rightarrow> string \<Rightarrow> world \<Rightarrow> unit outcome \<times> world" where
  "delete_session E session_id w =
     (if session_id = [] then (Raise (SystemExit 1), log_error ''Session OCID required.'' w)
      else
        seq (confirm_action ''Continue?'' (log_warn ''Deleting session...'' w))
          (\<lambda>ok w1.
             if \<not> ok then (Return (), log_info ''Cancelled.'' w1)
             else
               seq (run_oci_command E
                      [''bastion'', ''session'', ''delete'', ''--session-id'', session_id, ''--force'']
                      (OCI_PROFILE E) False True w1)
                 (\<lambda>_ w2. (Return (), log_success ''Session deleted'' w2))))"

section \<open>Vocabulary of the properties\<close>

text \<open>
  A process is alive when the process table has it. The probe of \<^verbatim>\<open>list_tunnels\<close>
  succeeds on a process id when \<^verbatim>\<open>os.kill(pid, 0)\<close> raises nothing. A tunnel is reported
  when its line is among the lines written.
\<close>

definition alive :: "world \<Rightarrow> int \<Rightarrow> bool" where
  "alive w p = (0 < p \<and> map_of (procs w) (nat p) \<noteq> None)"

definition signalable :: "env \<Rightarrow> world \<Rightarrow> int \<Rightarrow> bool" where
  "signalable E w p = (fst (os_kill E p SIG0 w) = Return ())"

definition listed :: "tunnel \<Rightarrow> event" where
  "listed r = Listed (rec_pid r) (rec_local_port r) (rec_target_host r) (rec_target_port r)"

definition reported :: "tunnel \<Rightarrow> world \<Rightarrow> bool" where
  "reported r w = (listed r \<in> set (out w))"

text \<open>
  The process id of one process, as \<^verbatim>\<open>subprocess.Popen\<close> gives it to a child: positive
  and within \<^verbatim>\<open>pid_t\<close>. A registry is well formed when no two of its files have the same
  name and every record holds such a process id, as every record that \<^verbatim>\<open>start_tunnel\<close>
  writes does.
\<close>

definition valid_pid :: "int \<Rightarrow> bool" where
  "valid_pid p = (0 < p \<and> p \<le> 2147483647)"

definition well_formed :: "world \<Rightarrow> bool" where
  "well_formed w =
     (distinct (map fst (files w)) \<and> list_all (\<lambda>entry. valid_pid (rec_pid (snd entry))) (files w))"

text \<open>The user confirms with \<^verbatim>\<open>y\<close> or \<^verbatim>\<open>yes\<close>, in any case of the letters.\<close>

definition affirmative :: "string \<Rightarrow> bool" where
  "affirmative response = (lower response = ''y'' \<or> lower response = ''yes'')"

text \<open>
  What the helpers need from the outside to bring a tunnel up. The bastion service
  grants a lookup when it answers the query for the session with the id of its bastion
  and the query for that bastion with its endpoint; it grants a tunnel when, before
  that, it answers the creation with the id of a session. The command lines are those
  the functions run, each asked after the ones before it.
\<close>

definition member_of :: "stdout \<Rightarrow> string \<Rightarrow> string option" where
  "member_of text key =
     (case text of Object (Some d) \<Rightarrow> map_of (members d) key | _ \<Rightarrow> None)"

definition lookup_grants :: "env \<Rightarrow> string list list \<Rightarrow> string \<Rightarrow> string \<Rightarrow> string \<Rightarrow> bool" where
  "lookup_grants E history sid bid ep =
     (let session_cmd = [''oci'', ''bastion'', ''session'', ''get'', ''--session-id'', sid,
                         ''--profile'', OCI_PROFILE E, ''--output'', ''json''];
          bastion_cmd = [''oci'', ''bastion'', ''bastion'', ''get'', ''--bastion-id'', bid,
                         ''--profile'', OCI_PROFILE E, ''--output'', ''json''];
          session = oci_cli E history session_cmd;
          bastion = oci_cli E (history @ [session_cmd]) bastion_cmd
      in on_path E ''oci'' \<and> on_path E ''ssh''
         \<and> returncode session = 0 \<and> member_of (stdout session) ''bastion-id'' = Some bid
         \<and> returncode bastion = 0 \<and> member_of (stdout bastion) ''bastion-endpoint'' = Some ep)"

definition create_cmd :: "env \<Rightarrow> string \<Rightarrow> string \<Rightarrow> string \<Rightarrow> string option \<Rightarrow> string list" where
  "create_cmd E session_name host port bastion_id =
     [''oci'', ''bastion'', ''session'', ''create-port-forwarding'',
      ''--bastion-id'', or_else bastion_id (BASTION_OCID E),
      ''--target-private-ip'', host,
      ''--target-port'', port,
      ''--session-ttl-in-seconds'', str_int (DEFAULT_TTL E),
      ''--display-name'', session_name,
      ''--wait-for-state'', ''ACTIVE'',
      ''--profile'', OCI_PROFILE E, ''--output'', ''json'']"

definition service_grants ::
  "env \<Rightarrow> string list list \<Rightarrow> string \<Rightarrow> string \<Rightarrow> string \<Rightarrow> string option
     \<Rightarrow> string \<Rightarrow> string \<Rightarrow> string \<Rightarrow> bool" where
  "service_grants E history session_name host port bastion_id sid bid ep =
     (let created = oci_cli E history (create_cmd E session_name host port bastion_id)
      in or_else bastion_id (BASTION_OCID E) \<noteq> [] \<and> host \<noteq> [] \<and> port \<noteq> [] \<and> sid \<noteq> []
         \<and> returncode created = 0 \<and> member_of (stdout created) ''id'' = Some sid
         \<and> lookup_grants E (history @ [create_cmd E session_name host port bastion_id])
               sid bid ep)"

section \<open>Concrete environments\<close>

text \<open>
  A small bastion service for the examples: one session, one bastion, every command
  answered at once. Deleting a session succeeds once; the same command run again is
  answered as the service answers for a session it no longer has, with an error status.
\<close>

definition demo_session :: "string \<Rightarrow> api_data" where
  "demo_session state =
     \<lparr>members = [(''id'', ''ocid1.bastionsession.oc1..s1''),
                 (''bastion-id'', ''ocid1.bastion.oc1..b1''),
                 (''lifecycle-state'', state)],
      ssh_metadata = None\<rparr>"

definition demo_bastion :: api_data where
  "demo_bastion =
     \<lparr>members = [(''id'', ''ocid1.bastion.oc1..b1''),
                 (''bastion-endpoint'', ''host.bastion.example'')],
      ssh_metadata = None\<rparr>"

definition answer :: "api_data \<Rightarrow> cli_result" where
  "answer d = \<lparr>returncode = 0, stderr = [], stdout = Object (Some d)\<rparr>"

definition demo_cli :: "string \<Rightarrow> string list list \<Rightarrow> string list \<Rightarrow> cli_result" where
  "demo_cli state history cmd =
     (if take 4 cmd = [''oci'', ''bastion'', ''session'', ''create-port-forwarding'']
        then answer (demo_session ''ACTIVE'')
      else if take 4 cmd = [''oci'', ''bastion'', ''session'', ''get'']
        then answer (demo_session state)
      else if take 4 cmd = [''oci'', ''bastion'', ''bastion'', ''get'']
        then answer demo_bastion
      else if take 4 cmd = [''oci'', ''bastion'', ''session'', ''delete''] \<and> cmd \<notin> set history
        then \<lparr>returncode = 0, stderr = [], stdout = Empty\<rparr>
      else \<lparr>returncode = 1, stderr = ''ServiceError: 404 NotAuthorizedOrNotFound'',
            stdout = Empty\<rparr>)"

text \<open>A service on which waiting for the state ACTIVE runs into the time limit.\<close>

definition timeout_cli :: "string list list \<Rightarrow> string list \<Rightarrow> cli_result" where
  "timeout_cli history cmd =
     \<lparr>returncode = 2, stderr = ''Timed out waiting for the session'', stdout = Empty\<rparr>"

definition demo_env :: "(string list list \<Rightarrow> string list \<Rightarrow> cli_result) \<Rightarrow> nat \<Rightarrow> env" where
  "demo_env cli uid =
     \<lparr>OCI_PROFILE = ''DEFAULT'',
      BASTION_OCID = ''ocid1.bastion.oc1..b1'',
      SSH_KEY = ''~/.ssh/id_rsa'',
      DEFAULT_TTL = 10800,
      expanduser = (\<lambda>path. if take 1 path = ''~'' then ''/home/ops'' @ drop 1 path else path),
      on_path = (\<lambda>program. True),
      oci_cli = cli,
      new_pid = (\<lambda>table. Suc (fold max (map fst table) 0)),
      killpg = (\<lambda>p sg table. (Raise (OSError ESRCH), table)),
      euid = uid\<rparr>"

definition demo_record :: tunnel where
  "demo_record =
     \<lparr>rec_pid = 4242,
      rec_session_id = ''ocid1.bastionsession.oc1..s0'',
      rec_local_port = ''8080'',
      rec_target_host = ''10.0.1.5'',
      rec_target_port = ''5432'',
      rec_bastion_endpoint = ''host.bastion.example''\<rparr>"

text \<open>
  A registry with the one record above, a process table, and a user who will answer
  \<^verbatim>\<open>n\<close> to any question.
\<close>

definition registry_world :: "(nat \<times> nat) list \<Rightarrow> world" where
  "registry_world table =
     \<lparr>files = [(''tunnel-8080.json'', demo_record)],
      procs = table,
      stdin = [''n''],
      oci_log = [],
      spawned = [],
      shell = [],
      slept = 0,
      out = []\<rparr>"

definition empty_world :: "string list \<Rightarrow> world" where
  "empty_world answers =
     \<lparr>files = [],
      procs = [],
      stdin = answers,
      oci_log = [],
      spawned = [],
      shell = [],
      slept = 0,
      out = []\<rparr>"

section \<open>Properties\<close>

text \<open>
  The equations that evaluate the functions on the concrete environments above.
\<close>

lemmas run_defs =
  start_tunnel_def create_port_forward_session_def seq_def Let_def run_oci_command_def
  Popen_def write_file_def or_else_def ssh_cmd_of_def tunnel_path_def read_tunnel_def
  log_info_def log_success_def log_error_def log_warn_def

lemmas demo_defs =
  demo_env_def demo_cli_def timeout_cli_def demo_session_def demo_bastion_def answer_def
  registry_world_def empty_world_def demo_record_def

lemmas helper_defs =
  quick_tunnel_def connect_postgres_def connect_mysql_def connect_redis_def connect_mongodb_def
  os_system_def sleep_def

subsection \<open>The probe and the registry\<close>

lemma signalable_iff:
  "valid_pid p \<Longrightarrow>
   signalable E w p \<longleftrightarrow>
     (\<exists>owner. map_of (procs w) (nat p) = Some owner \<and> (euid E = 0 \<or> euid E = owner))"
  by (auto simp: valid_pid_def signalable_def os_kill_def split: option.splits)

lemma signalable_frame [simp]:
  "signalable E (w\<lparr>out := x\<rparr>) p = signalable E w p"
  "signalable E (w\<lparr>files := y\<rparr>) p = signalable E w p"
  by (simp_all add: signalable_def os_kill_def split: option.splits)

lemma signalable_alive: "valid_pid p \<Longrightarrow> signalable E w p \<Longrightarrow> alive w p"
  by (auto simp: signalable_iff alive_def valid_pid_def)

lemma os_kill_probe:
  "valid_pid p \<Longrightarrow>
   os_kill E p SIG0 w =
     (if signalable E w p then (Return (), w)
      else (Raise (OSError (if alive w p then EPERM else ESRCH)), w))"
  by (auto simp: valid_pid_def signalable_def alive_def os_kill_def split: option.splits)

lemma well_formed_pid:
  "well_formed w \<Longrightarrow> map_of (files w) n = Some d \<Longrightarrow> valid_pid (rec_pid d)"
  by (auto simp: well_formed_def list_all_iff dest!: map_of_SomeD)

lemma glob_match_tunnel_path: "glob_match (tunnel_path local_port)"
  by (simp add: glob_match_def tunnel_path_def)

lemma list_tunnels_loop_effect:
  assumes "distinct ns" and "set ns \<subseteq> dom (map_of (files w))"
    and "\<forall>n d. map_of (files w) n = Some d \<longrightarrow> valid_pid (rec_pid d)"
  shows "\<exists>w'. list_tunnels_loop E ns w = (Return (), w')
           \<and> procs w' = procs w \<and> stdin w' = stdin w \<and> oci_log w' = oci_log w
           \<and> spawned w' = spawned w \<and> shell w' = shell w
           \<and> (\<forall>n. map_of (files w') n =
                 (case map_of (files w) n of
                    None \<Rightarrow> None
                  | Some d \<Rightarrow> if n \<in> set ns \<and> \<not> signalable E w (rec_pid d) then None else Some d))
           \<and> set (out w') = set (out w) \<union>
                 {listed d |n d. n \<in> set ns \<and> map_of (files w) n = Some d \<and> signalable E w (rec_pid d)}"
  using assms
proof (induction ns arbitrary: w)
  case Nil
  then show ?case by (auto split: option.splits)
next
  case (Cons n rest)
  from Cons.prems obtain d where d: "map_of (files w) n = Some d" by auto
  from Cons.prems(3) d have vd: "valid_pid (rec_pid d)" by blast
  show ?case
  proof (cases "signalable E w (rec_pid d)")
    case True
    define w1 where "w1 = w\<lparr>out := out w @ [listed d]\<rparr>"
    have step: "list_tunnels_loop E (n # rest) w = list_tunnels_loop E rest w1"
      using d True vd by (simp add: os_kill_probe w1_def listed_def)
    have sig: "\<And>p. signalable E w1 p = signalable E w p"
      by (simp add: w1_def)
    have "distinct rest" "set rest \<subseteq> dom (map_of (files w1))"
      "\<forall>m e. map_of (files w1) m = Some e \<longrightarrow> valid_pid (rec_pid e)"
      using Cons.prems by (auto simp: w1_def)
    from Cons.IH[OF this] obtain w' where
      w': "list_tunnels_loop E rest w1 = (Return (), w')"
          "procs w' = procs w1" "stdin w' = stdin w1" "oci_log w' = oci_log w1"
          "spawned w' = spawned w1" "shell w' = shell w1"
          "\<forall>m. map_of (files w') m =
                 (case map_of (files w1) m of
                    None \<Rightarrow> None
                  | Some d \<Rightarrow> if m \<in> set rest \<and> \<not> signalable E w1 (rec_pid d) then None else Some d)"
          "set (out w') = set (out w1) \<union>
                 {listed d |m d. m \<in> set rest \<and> map_of (files w1) m = Some d \<and> signalable E w1 (rec_pid d)}"
      by blast
    have f: "\<forall>m. map_of (files w') m =
                 (case map_of (files w) m of
                    None \<Rightarrow> None
                  | Some d \<Rightarrow> if m \<in> set (n # rest) \<and> \<not> signalable E w (rec_pid d) then None else Some d)"
      using w'(7) d True by (auto simp: sig w1_def split: option.splits)
    have o: "set (out w') = set (out w) \<union>
                 {listed d |m d. m \<in> set (n # rest) \<and> map_of (files w) m = Some d \<and> signalable E w (rec_pid d)}"
      using w'(8) d True by (auto simp: sig w1_def)
    show ?thesis
      using step w'(1-6) f o by (simp add: w1_def)
  next
    case False
    define w2 where "w2 = w\<lparr>files := AList.delete n (files w)\<rparr>"
    have step: "list_tunnels_loop E (n # rest) w = list_tunnels_loop E rest w2"
      using d False vd by (simp add: os_kill_probe unlink_def seq_def w2_def)
    have sig: "\<And>p. signalable E w2 p = signalable E w p"
      by (simp add: w2_def)
    have m2: "\<And>m. map_of (files w2) m = (if m = n then None else map_of (files w) m)"
      by (simp add: w2_def delete_conv')
    have "distinct rest" "set rest \<subseteq> dom (map_of (files w2))"
      "\<forall>m e. map_of (files w2) m = Some e \<longrightarrow> valid_pid (rec_pid e)"
      using Cons.prems by (auto simp: m2 dom_def split: if_splits)
    from Cons.IH[OF this] obtain w' where
      w': "list_tunnels_loop E rest w2 = (Return (), w')"
          "procs w' = procs w2" "stdin w' = stdin w2" "oci_log w' = oci_log w2"
          "spawned w' = spawned w2" "shell w' = shell w2"
          "\<forall>m. map_of (files w') m =
                 (case map_of (files w2) m of
                    None \<Rightarrow> None
                  | Some d \<Rightarrow> if m \<in> set rest \<and> \<not> signalable E w2 (rec_pid d) then None else Some d)"
          "set (out w') = set (out w2) \<union>
                 {listed d |m d. m \<in> set rest \<and> map_of (files w2) m = Some d \<and> signalable E w2 (rec_pid d)}"
      by blast
    have n_rest: "n \<notin> set rest" using Cons.prems by simp
    have f: "\<forall>m. map_of (files w') m =
                 (case map_of (files w) m of
                    None \<Rightarrow> None
                  | Some d \<Rightarrow> if m \<in> set (n # rest) \<and> \<not> signalable E w (rec_pid d) then None else Some d)"
      using w'(7) d False by (auto simp: sig m2 split: option.splits)
    have "{listed d |m d. m \<in> set rest \<and> map_of (files w2) m = Some d \<and> signalable E w2 (rec_pid d)}
          = {listed d |m d. m \<in> set (n # rest) \<and> map_of (files w) m = Some d \<and> signalable E w (rec_pid d)}"
      using d False n_rest by (auto simp: sig m2)
    then have o: "set (out w') = set (out w) \<union>
                 {listed d |m d. m \<in> set (n # rest) \<and> map_of (files w) m = Some d \<and> signalable E w (rec_pid d)}"
      using w'(8) by (simp add: w2_def)
    show ?thesis
      using step w'(1-6) f o by (simp add: w2_def)
  qed
qed

lemma listed_not_info: "listed r \<noteq> Info m"
  by (simp add: listed_def)

lemma glob_props:
  assumes "distinct (map fst (files w))"
  shows "distinct (glob w)" and "set (glob w) \<subseteq> dom (map_of (files w))"
    and "n \<in> set (glob w) \<longleftrightarrow> glob_match n \<and> map_of (files w) n \<noteq> None"
  using assms by (auto simp: glob_def dom_map_of_conv_image_fst map_of_eq_None_iff)

lemma list_tunnels_effect:
  assumes wf: "well_formed w"
  shows "\<exists>w'. list_tunnels E w = (Return (), w')
           \<and> procs w' = procs w \<and> stdin w' = stdin w \<and> oci_log w' = oci_log w
           \<and> spawned w' = spawned w \<and> shell w' = shell w
           \<and> (\<forall>n. map_of (files w') n =
                 (case map_of (files w) n of
                    None \<Rightarrow> None
                  | Some d \<Rightarrow> if glob_match n \<and> \<not> signalable E w (rec_pid d) then None else Some d))
           \<and> (\<forall>r. reported r w' \<longleftrightarrow>
                 reported r w \<or>
                 (\<exists>n d. glob_match n \<and> map_of (files w) n = Some d
                        \<and> signalable E w (rec_pid d) \<and> listed d = listed r))"
proof (cases "glob w = []")
  case True
  note assms = wf[unfolded well_formed_def, THEN conjunct1]
  have none: "\<And>n d. map_of (files w) n = Some d \<Longrightarrow> \<not> glob_match n"
    using glob_props(3)[OF assms] True by (metis empty_iff list.set(1) option.distinct(1))
  have "list_tunnels E w = (Return (), log_info ''No active tunnels'' w)"
    using True by (simp add: list_tunnels_def)
  then show ?thesis
    using none by (auto simp: log_info_def reported_def listed_def split: option.splits)
next
  case False
  note assms = wf[unfolded well_formed_def, THEN conjunct1]
  define w0 where "w0 = log_info ''Active tunnels:'' w"
  have w0: "files w0 = files w" "procs w0 = procs w" "stdin w0 = stdin w"
    "oci_log w0 = oci_log w" "spawned w0 = spawned w" "shell w0 = shell w"
    "set (out w0) = insert (Info ''Active tunnels:'') (set (out w))"
    "\<And>p. signalable E w0 p = signalable E w p"
    by (simp_all add: w0_def log_info_def)
  have g: "distinct (glob w)" "set (glob w) \<subseteq> dom (map_of (files w0))"
    using glob_props(1,2)[OF assms] by (simp_all add: w0)
  have pids: "\<forall>n d. map_of (files w0) n = Some d \<longrightarrow> valid_pid (rec_pid d)"
    using well_formed_pid[OF wf] by (simp add: w0)
  from list_tunnels_loop_effect[OF g pids, of E] obtain w' where
    w': "list_tunnels_loop E (glob w) w0 = (Return (), w')"
        "procs w' = procs w0" "stdin w' = stdin w0" "oci_log w' = oci_log w0"
        "spawned w' = spawned w0" "shell w' = shell w0"
        "\<forall>n. map_of (files w') n =
                 (case map_of (files w0) n of
                    None \<Rightarrow> None
                  | Some d \<Rightarrow> if n \<in> set (glob w) \<and> \<not> signalable E w0 (rec_pid d) then None else Some d)"
        "set (out w') = set (out w0) \<union>
           {listed d |n d. n \<in> set (glob w) \<and> map_of (files w0) n = Some d \<and> signalable E w0 (rec_pid d)}"
    by blast
  have run: "list_tunnels E w = (Return (), w')"
    using False w'(1) by (simp add: list_tunnels_def w0_def)
  have f: "\<forall>n. map_of (files w') n =
                 (case map_of (files w) n of
                    None \<Rightarrow> None
                  | Some d \<Rightarrow> if glob_match n \<and> \<not> signalable E w (rec_pid d) then None else Some d)"
    using w'(7) by (auto simp: w0 glob_props(3)[OF assms] split: option.splits)
  have o: "\<forall>r. reported r w' \<longleftrightarrow>
                 reported r w \<or>
                 (\<exists>n d. glob_match n \<and> map_of (files w) n = Some d
                        \<and> signalable E w (rec_pid d) \<and> listed d = listed r)"
    unfolding reported_def w'(8) w0
    by (auto simp: glob_props(3)[OF assms] listed_not_info)
  show ?thesis
    using run w'(2-6) f o by (simp add: w0)
qed

lemma listed_eq_pid: "listed d = listed r \<Longrightarrow> rec_pid d = rec_pid r"
  by (simp add: listed_def)

lemma list_tunnels_registered:
  assumes "well_formed w"
    and "read_tunnel local_port w = Some r"
    and "\<not> reported r w"
  shows "\<exists>w'. list_tunnels E w = (Return (), w')
           \<and> (reported r w' \<longleftrightarrow> signalable E w (rec_pid r))
           \<and> read_tunnel local_port w' = (if signalable E w (rec_pid r) then Some r else None)"
proof -
  from list_tunnels_effect[OF assms(1), of E] obtain w' where
    w': "list_tunnels E w = (Return (), w')"
        "\<forall>n. map_of (files w') n =
                 (case map_of (files w) n of
                    None \<Rightarrow> None
                  | Some d \<Rightarrow> if glob_match n \<and> \<not> signalable E w (rec_pid d) then None else Some d)"
        "\<forall>r. reported r w' \<longleftrightarrow>
                 reported r w \<or>
                 (\<exists>n d. glob_match n \<and> map_of (files w) n = Some d
                        \<and> signalable E w (rec_pid d) \<and> listed d = listed r)"
    by blast
  have reg: "map_of (files w) (tunnel_path local_port) = Some r"
    using assms(2) by (simp add: read_tunnel_def)
  have rep: "reported r w' \<longleftrightarrow> signalable E w (rec_pid r)"
  proof
    assume "reported r w'"
    with w'(3) assms(3) obtain n d where
      "signalable E w (rec_pid d)" "listed d = listed r" by blast
    then show "signalable E w (rec_pid r)" using listed_eq_pid[of d r] by simp
  next
    assume "signalable E w (rec_pid r)"
    with reg glob_match_tunnel_path w'(3) show "reported r w'" by blast
  qed
  have kept_file: "read_tunnel local_port w' = (if signalable E w (rec_pid r) then Some r else None)"
    using w'(2) reg by (simp add: read_tunnel_def glob_match_tunnel_path)
  show ?thesis
    using w'(1) rep kept_file by blast
qed

text \<open>
  C1 does not hold of \<^verbatim>\<open>list_tunnels\<close>, whose own comments say that it checks whether
  the process is still running and cleans up the file of a dead tunnel. Here the
  registry is well formed and holds the tunnel of port 8080, whose process 4242 is alive
  and belongs to root (the tunnel was started under \<^verbatim>\<open>sudo\<close>); the caller is user 1000.
  The probe raises \<^verbatim>\<open>PermissionError\<close>, the handler for \<^verbatim>\<open>OSError\<close> takes it for death,
  and \<^verbatim>\<open>list_tunnels\<close> returns without reporting the tunnel, its record file deleted.
\<close>

theorem list_tunnels_drops_live_tunnel:
  "well_formed (registry_world [(4242, 0)])
   \<and> read_tunnel ''8080'' (registry_world [(4242, 0)]) = Some demo_record
   \<and> alive (registry_world [(4242, 0)]) (rec_pid demo_record)
   \<and> fst (os_kill (demo_env (demo_cli ''ACTIVE'') 1000) (rec_pid demo_record) SIG0
            (registry_world [(4242, 0)])) = Raise (OSError EPERM)
   \<and> fst (list_tunnels (demo_env (demo_cli ''ACTIVE'') 1000) (registry_world [(4242, 0)])) = Return ()
   \<and> \<not> reported demo_record
         (snd (list_tunnels (demo_env (demo_cli ''ACTIVE'') 1000) (registry_world [(4242, 0)])))
   \<and> read_tunnel ''8080''
         (snd (list_tunnels (demo_env (demo_cli ''ACTIVE'') 1000) (registry_world [(4242, 0)])))
       = None"
  by (simp add: list_tunnels_def glob_def glob_match_def os_kill_def unlink_def seq_def
      log_info_def reported_def listed_def alive_def read_tunnel_def tunnel_path_def
      well_formed_def valid_pid_def registry_world_def demo_env_def demo_record_def)

text \<open>
  C9. In a well formed registry, whenever the probe with signal 0 raises an
  \<^verbatim>\<open>OSError\<close>, whichever it is,
  \<^verbatim>\<open>list_tunnels\<close> deletes the record and does not report the tunnel. The error is the
  permission error exactly when the process is alive: a live process of another user
  counts as dead.
\<close>

theorem list_tunnels_oserror_is_dead:
  assumes "well_formed w"
    and "read_tunnel local_port w = Some r"
    and "\<not> reported r w"
    and "fst (os_kill E (rec_pid r) SIG0 w) = Raise (OSError e)"
  shows "\<exists>w'. list_tunnels E w = (Return (), w')
           \<and> read_tunnel local_port w' = None
           \<and> \<not> reported r w'
           \<and> (alive w (rec_pid r) \<longleftrightarrow> e = EPERM)"
proof -
  have ns: "\<not> signalable E w (rec_pid r)"
    using assms(4) by (simp add: signalable_def)
  have vr: "valid_pid (rec_pid r)"
    using well_formed_pid[OF assms(1)] assms(2) by (simp add: read_tunnel_def)
  have err: "alive w (rec_pid r) \<longleftrightarrow> e = EPERM"
    using assms(4) ns by (simp add: os_kill_probe[OF vr] split: if_splits)
  from list_tunnels_registered[OF assms(1-3), of E] obtain w' where
    w': "list_tunnels E w = (Return (), w')"
        "reported r w' \<longleftrightarrow> signalable E w (rec_pid r)"
        "read_tunnel local_port w' = (if signalable E w (rec_pid r) then Some r else None)"
    by blast
  have gone: "read_tunnel local_port w' = None" using w'(3) ns by simp
  have quiet: "\<not> reported r w'" using w'(2) ns by simp
  from w'(1) gone quiet err show ?thesis
    by (intro exI[of _ w'] conjI)
qed

theorem list_tunnels_oserror_is_dead_witness:
  "well_formed (registry_world [(4242, 0)])
   \<and> read_tunnel ''8080'' (registry_world [(4242, 0)]) = Some demo_record
   \<and> \<not> reported demo_record (registry_world [(4242, 0)])
   \<and> fst (os_kill (demo_env (demo_cli ''ACTIVE'') 1000) (rec_pid demo_record) SIG0
            (registry_world [(4242, 0)])) = Raise (OSError EPERM)
   \<and> alive (registry_world [(4242, 0)]) (rec_pid demo_record)
   \<and> (\<exists>w'. list_tunnels (demo_env (demo_cli ''ACTIVE'') 1000) (registry_world [(4242, 0)])
              = (Return (), w')
            \<and> read_tunnel ''8080'' w' = None
            \<and> \<not> reported demo_record w')"
proof -
  have h1: "well_formed (registry_world [(4242, 0)])"
    by (simp add: well_formed_def valid_pid_def registry_world_def demo_record_def)
  have h2: "read_tunnel ''8080'' (registry_world [(4242, 0)]) = Some demo_record"
    by (simp add: registry_world_def read_tunnel_def tunnel_path_def)
  have h3: "\<not> reported demo_record (registry_world [(4242, 0)])"
    by (simp add: registry_world_def reported_def)
  have h4: "fst (os_kill (demo_env (demo_cli ''ACTIVE'') 1000) (rec_pid demo_record) SIG0
              (registry_world [(4242, 0)])) = Raise (OSError EPERM)"
    by (simp add: os_kill_def registry_world_def demo_env_def demo_record_def)
  from list_tunnels_oserror_is_dead[OF h1 h2 h3 h4] h1 h2 h3 h4 show ?thesis
    by blast
qed

subsection \<open>Closing a tunnel\<close>

lemma os_kill_frame:
  "os_kill E p sg w = (r, w') \<Longrightarrow>
     files w' = files w \<and> stdin w' = stdin w \<and> oci_log w' = oci_log w
     \<and> spawned w' = spawned w \<and> shell w' = shell w \<and> out w' = out w"
  by (auto simp: os_kill_def split: option.splits if_splits)


lemma close_tunnel_absent:
  "read_tunnel local_port w = None \<Longrightarrow>
     close_tunnel E local_port w = (Return (), log_error (''No tunnel found on port '' @ local_port) w)"
  by (simp add: close_tunnel_def)


text \<open>
  Outside the process ids of single processes \<^verbatim>\<open>close_tunnel\<close> does not get as far as
  the unlink: beyond \<^verbatim>\<open>pid_t\<close> the signal call raises \<^verbatim>\<open>OverflowError\<close>, which the handler
  for \<^verbatim>\<open>OSError\<close> lets pass, and with the process id 0 the signal ends the caller. No
  record that \<^verbatim>\<open>start_tunnel\<close> writes is of this kind.
\<close>

lemma close_tunnel_foreign_pid:
  assumes "read_tunnel local_port w = Some r"
  shows "2147483647 < rec_pid r \<Longrightarrow> close_tunnel E local_port w = (Raise OverflowError, w)"
    and "rec_pid r = 0 \<Longrightarrow> close_tunnel E local_port w = (Killed SIGTERM, w)"
  using assms by (simp_all add: close_tunnel_def os_kill_def)



subsection \<open>Sessions and the launch of a tunnel\<close>

lemma run_oci_command_frame:
  "run_oci_command E args profile output_json check w = (r, w') \<Longrightarrow>
     files w' = files w \<and> procs w' = procs w \<and> spawned w' = spawned w
     \<and> stdin w' = stdin w \<and> shell w' = shell w \<and> slept w' = slept w"
  by (auto simp: run_oci_command_def Let_def log_error_def split: if_splits stdout.splits)

lemma run_oci_command_outcome:
  "run_oci_command E args profile output_json check w = (r, w') \<Longrightarrow>
     (\<exists>x. r = Return x) \<or> r = Raise CalledProcessError \<or> r = Raise (OSError ENOENT)"
  by (auto simp: run_oci_command_def Let_def split: if_splits stdout.splits)

lemma run_oci_command_files_indep:
  "fst (run_oci_command E args profile output_json check (w\<lparr>files := fs\<rparr>))
     = fst (run_oci_command E args profile output_json check w)
   \<and> snd (run_oci_command E args profile output_json check (w\<lparr>files := fs\<rparr>))
     = (snd (run_oci_command E args profile output_json check w))\<lparr>files := fs\<rparr>"
  by (auto simp: run_oci_command_def Let_def log_error_def split: if_splits stdout.splits)

lemma create_port_forward_session_frame:
  "create_port_forward_session E target_host target_port session_name bastion_id w = (r, w') \<Longrightarrow>
     files w' = files w \<and> procs w' = procs w \<and> spawned w' = spawned w
     \<and> stdin w' = stdin w \<and> shell w' = shell w \<and> slept w' = slept w"
  apply (simp add: create_port_forward_session_def Let_def seq_def
      split: if_splits prod.splits outcome.splits option.splits)
  apply (auto simp: log_error_def log_info_def log_success_def dest!: run_oci_command_frame)
  done

lemma create_port_forward_session_outcome:
  "create_port_forward_session E target_host target_port session_name bastion_id w = (r, w') \<Longrightarrow>
     (\<exists>x. r = Return x) \<or> r = Raise CalledProcessError \<or> r = Raise (OSError ENOENT)
     \<or> r = Raise (KeyError ''id'')"
  apply (simp add: create_port_forward_session_def Let_def seq_def
      split: if_splits prod.splits outcome.splits option.splits)
  apply (auto dest!: run_oci_command_outcome)
  done

text \<open>
  What \<^verbatim>\<open>start_tunnel\<close> leaves behind. Either it started no child and wrote no file,
  or it started the forwarding client; in that case, when it returns a process id, the
  file of the port holds the new record, and when \<^verbatim>\<open>open\<close> raised, no file changed.
\<close>

lemma start_tunnel_effect:
  assumes "start_tunnel E session_id local_port target_host target_port ssh_key background w = (r, w')"
  shows "(files w' = files w \<and> spawned w' = spawned w \<and> procs w' = procs w
            \<and> (\<forall>p. r \<noteq> Return (Some p)))
         \<or> (\<exists>p ep. background
              \<and> spawned w' = spawned w
                    @ [ssh_cmd_of session_id local_port target_host target_port ep
                         (expanduser E (or_else ssh_key (SSH_KEY E)))]
              \<and> p = new_pid E (procs w)
              \<and> procs w' = AList.update p (euid E) (procs w)
              \<and> ((r = Return (Some p)
                    \<and> files w' = AList.update (tunnel_path local_port)
                         \<lparr>rec_pid = int p, rec_session_id = session_id, rec_local_port = local_port,
                          rec_target_host = target_host, rec_target_port = target_port,
                          rec_bastion_endpoint = ep\<rparr> (files w))
                  \<or> (r = Raise (OSError ENOENT) \<and> files w' = files w)))"
  using assms
  apply (simp add: start_tunnel_def seq_def Let_def
      split: prod.splits outcome.splits option.splits if_splits)
  apply (auto simp: Popen_def write_file_def execvp_def log_info_def log_success_def
      log_error_def Let_def split: if_splits dest!: run_oci_command_frame)
  done

lemma seq_files_indep:
  assumes "fst a = fst b" and "snd a = (snd b)\<lparr>files := fs\<rparr>"
    and "\<And>x w1. fst (f x (w1\<lparr>files := fs\<rparr>)) = fst (f x w1)"
  shows "fst (seq a f) = fst (seq b f)"
proof (cases a)
  case (Pair ra wa)
  obtain rb wb where b: "b = (rb, wb)" by (cases b)
  from assms(1,2) Pair b have eq: "ra = rb" "wa = wb\<lparr>files := fs\<rparr>" by simp_all
  show ?thesis
    using assms(3) by (cases rb) (simp_all add: seq_def Pair b eq)
qed

lemma run_oci_command_files_fst:
  "fst (run_oci_command E args profile output_json check (w\<lparr>files := fs\<rparr>))
     = fst (run_oci_command E args profile output_json check w)"
  by (simp add: run_oci_command_files_indep)

lemma run_oci_command_files_snd:
  "snd (run_oci_command E args profile output_json check (w\<lparr>files := fs\<rparr>))
     = (snd (run_oci_command E args profile output_json check w))\<lparr>files := fs\<rparr>"
  by (simp add: run_oci_command_files_indep)

lemma Popen_files_fst: "fst (Popen E argv (w\<lparr>files := fs\<rparr>)) = fst (Popen E argv w)"
  by (simp add: Popen_def Let_def)

lemma Popen_files_snd:
  "snd (Popen E argv (w\<lparr>files := fs\<rparr>)) = (snd (Popen E argv w))\<lparr>files := fs\<rparr>"
  by (simp add: Popen_def Let_def)

lemma fst_execvp:
  "fst (execvp E file argv w) = (if \<not> on_path E file then Raise (OSError ENOENT) else Replaced argv)"
  by (simp add: execvp_def)

lemma fst_write_file_then:
  "fst (seq (write_file name d w) (\<lambda>u w4. (Return x, g w4)))
     = (if CHR ''/'' \<in> set name then Raise (OSError ENOENT) else Return x)"
  by (simp add: write_file_def seq_def)

lemma start_tunnel_files_indep:
  "fst (start_tunnel E session_id local_port target_host target_port ssh_key background
          (w\<lparr>files := fs\<rparr>))
   = fst (start_tunnel E session_id local_port target_host target_port ssh_key background w)"
  unfolding start_tunnel_def Let_def
proof (rule seq_files_indep[OF run_oci_command_files_fst run_oci_command_files_snd], goal_cases)
  case (1 result w1)
  show ?case
  proof (cases result)
    case None
    then show ?thesis by simp
  next
    case (Some top)
    show ?thesis
    proof (cases top)
      case None
      with Some show ?thesis by simp
    next
      case inner: (Some session)
      show ?thesis
      proof (cases "map_of (members session) ''bastion-id''")
        case None
        with Some inner show ?thesis by simp
      next
        case bid: (Some bastion_id)
        have "fst (seq (run_oci_command E
                          [''bastion'', ''bastion'', ''get'', ''--bastion-id'', bastion_id]
                          (OCI_PROFILE E) True True (w1\<lparr>files := fs\<rparr>)) g)
              = fst (seq (run_oci_command E
                          [''bastion'', ''bastion'', ''get'', ''--bastion-id'', bastion_id]
                          (OCI_PROFILE E) True True w1) g)"
          if g: "\<And>x w2. fst (g x (w2\<lparr>files := fs\<rparr>)) = fst (g x w2)" for g
          by (rule seq_files_indep[OF run_oci_command_files_fst run_oci_command_files_snd]) (rule g)
        note outer = this
        show ?thesis
          unfolding Some inner bid option.case
        proof (rule outer, goal_cases)
          case (1 bastion_result w2)
          show ?case
          proof (cases bastion_result)
            case None
            then show ?thesis by simp
          next
            case some2: (Some top2)
            show ?thesis
            proof (cases top2)
              case None
              with some2 show ?thesis by simp
            next
              case inner2: (Some bastion)
              show ?thesis
              proof (cases "map_of (members bastion) ''bastion-endpoint''")
                case None
                with some2 inner2 show ?thesis by simp
              next
                case ep: (Some bastion_endpoint)
                show ?thesis
                proof (cases background)
                  case False
                  with some2 inner2 ep show ?thesis by (simp add: fst_execvp)
                next
                  case True
                  have "fst (seq (Popen E argv (w2\<lparr>files := fs\<rparr>)) h) = fst (seq (Popen E argv w2) h)"
                    if h: "\<And>x w3. fst (h x (w3\<lparr>files := fs\<rparr>)) = fst (h x w3)" for argv h
                    by (rule seq_files_indep[OF Popen_files_fst Popen_files_snd]) (rule h)
                  note spawn = this
                  show ?thesis
                    unfolding some2 inner2 ep option.case
                    using True by (simp add: spawn fst_write_file_then)
                qed
              qed
            qed
          qed
        qed
      qed
    qed
  qed
qed

text \<open>
  C8. When \<^verbatim>\<open>start_tunnel\<close> returns a process id, the record read back for the local
  port holds exactly that process id, the session id, local port, target host and target
  port it was called with, and the bastion endpoint it dialled in the command it started.
\<close>

theorem start_tunnel_register_roundtrip:
  assumes "start_tunnel E session_id local_port target_host target_port ssh_key background w
             = (Return (Some p), w')"
  shows "\<exists>ep. read_tunnel local_port w'
                = Some \<lparr>rec_pid = int p, rec_session_id = session_id, rec_local_port = local_port,
                        rec_target_host = target_host, rec_target_port = target_port,
                        rec_bastion_endpoint = ep\<rparr>
              \<and> spawned w' = spawned w
                    @ [ssh_cmd_of session_id local_port target_host target_port ep
                         (expanduser E (or_else ssh_key (SSH_KEY E)))]"
  using start_tunnel_effect[OF assms]
  by (auto simp: read_tunnel_def update_conv')


theorem start_tunnel_register_roundtrip_witness:
  "fst (start_tunnel (demo_env (demo_cli ''ACTIVE'') 1000) ''ocid1.bastionsession.oc1..s1''
          ''5432'' ''10.0.1.5'' ''5432'' None True (empty_world [])) = Return (Some 1)
   \<and> (\<exists>ep. read_tunnel ''5432''
              (snd (start_tunnel (demo_env (demo_cli ''ACTIVE'') 1000)
                      ''ocid1.bastionsession.oc1..s1'' ''5432'' ''10.0.1.5'' ''5432'' None True
                      (empty_world [])))
            = Some \<lparr>rec_pid = 1, rec_session_id = ''ocid1.bastionsession.oc1..s1'',
                    rec_local_port = ''5432'', rec_target_host = ''10.0.1.5'',
                    rec_target_port = ''5432'', rec_bastion_endpoint = ep\<rparr>)"
proof -
  have run: "fst (start_tunnel (demo_env (demo_cli ''ACTIVE'') 1000) ''ocid1.bastionsession.oc1..s1''
          ''5432'' ''10.0.1.5'' ''5432'' None True (empty_world [])) = Return (Some 1)"
    by (simp add: run_defs demo_defs)
  then have h: "start_tunnel (demo_env (demo_cli ''ACTIVE'') 1000) ''ocid1.bastionsession.oc1..s1''
          ''5432'' ''10.0.1.5'' ''5432'' None True (empty_world [])
        = (Return (Some 1),
           snd (start_tunnel (demo_env (demo_cli ''ACTIVE'') 1000) ''ocid1.bastionsession.oc1..s1''
                  ''5432'' ''10.0.1.5'' ''5432'' None True (empty_world [])))"
    by (metis prod.collapse)
  from start_tunnel_register_roundtrip[OF h] obtain ep where
    "read_tunnel ''5432''
       (snd (start_tunnel (demo_env (demo_cli ''ACTIVE'') 1000) ''ocid1.bastionsession.oc1..s1''
               ''5432'' ''10.0.1.5'' ''5432'' None True (empty_world [])))
     = Some \<lparr>rec_pid = int 1, rec_session_id = ''ocid1.bastionsession.oc1..s1'',
             rec_local_port = ''5432'', rec_target_host = ''10.0.1.5'',
             rec_target_port = ''5432'', rec_bastion_endpoint = ep\<rparr>"
    by blast
  then have "\<exists>ep. read_tunnel ''5432''
       (snd (start_tunnel (demo_env (demo_cli ''ACTIVE'') 1000) ''ocid1.bastionsession.oc1..s1''
               ''5432'' ''10.0.1.5'' ''5432'' None True (empty_world [])))
     = Some \<lparr>rec_pid = 1, rec_session_id = ''ocid1.bastionsession.oc1..s1'',
             rec_local_port = ''5432'', rec_target_host = ''10.0.1.5'',
             rec_target_port = ''5432'', rec_bastion_endpoint = ep\<rparr>"
    by (intro exI[of _ ep]) simp
  with run show ?thesis by (intro conjI)
qed

text \<open>
  C2 as it is written fails: port 8080 has a record whose process 4242 is alive and the
  caller's own, and \<^verbatim>\<open>start_tunnel\<close> on port 8080 is not rejected; it starts process 4243
  and the record of the port is no longer the one that was there.
\<close>

theorem start_tunnel_live_port_counterexample:
  "read_tunnel ''8080'' (registry_world [(4242, 1000)]) = Some demo_record
   \<and> signalable (demo_env (demo_cli ''ACTIVE'') 1000) (registry_world [(4242, 1000)])
        (rec_pid demo_record)
   \<and> fst (start_tunnel (demo_env (demo_cli ''ACTIVE'') 1000) ''ocid1.bastionsession.oc1..s1''
            ''8080'' ''10.0.1.5'' ''5432'' None True (registry_world [(4242, 1000)]))
       = Return (Some 4243)
   \<and> read_tunnel ''8080''
        (snd (start_tunnel (demo_env (demo_cli ''ACTIVE'') 1000) ''ocid1.bastionsession.oc1..s1''
                ''8080'' ''10.0.1.5'' ''5432'' None True (registry_world [(4242, 1000)])))
       = Some \<lparr>rec_pid = 4243, rec_session_id = ''ocid1.bastionsession.oc1..s1'',
               rec_local_port = ''8080'', rec_target_host = ''10.0.1.5'',
               rec_target_port = ''5432'', rec_bastion_endpoint = ''host.bastion.example''\<rparr>"
  by (simp add: run_defs demo_defs signalable_def os_kill_def)

lemma tunnel_path_inject: "tunnel_path a = tunnel_path b \<longleftrightarrow> a = b"
  by (simp add: tunnel_path_def)

text \<open>
  C2, as amended. \<^verbatim>\<open>start_tunnel\<close> never looks at the registry: whatever the directory
  holds, its outcome is the same. Whenever it returns a process id, the record of the
  port is the new one, written over whatever was there, and the records of the other
  ports are as before.
\<close>

theorem start_tunnel_overwrites:
  "fst (start_tunnel E session_id local_port target_host target_port ssh_key background
          (w\<lparr>files := fs\<rparr>))
     = fst (start_tunnel E session_id local_port target_host target_port ssh_key background w)
   \<and> (\<forall>p. fst (start_tunnel E session_id local_port target_host target_port ssh_key background w)
            = Return (Some p) \<longrightarrow>
          (\<exists>r. read_tunnel local_port
                  (snd (start_tunnel E session_id local_port target_host target_port ssh_key
                          background w)) = Some r
               \<and> rec_pid r = int p \<and> rec_session_id r = session_id)
          \<and> (\<forall>other. other \<noteq> local_port \<longrightarrow>
                read_tunnel other
                  (snd (start_tunnel E session_id local_port target_host target_port ssh_key
                          background w))
                = read_tunnel other w))"
proof (intro conjI allI impI)
  show "fst (start_tunnel E session_id local_port target_host target_port ssh_key background
          (w\<lparr>files := fs\<rparr>))
     = fst (start_tunnel E session_id local_port target_host target_port ssh_key background w)"
    by (rule start_tunnel_files_indep)
next
  fix p
  assume "fst (start_tunnel E session_id local_port target_host target_port ssh_key background w)
            = Return (Some p)"
  then have run: "start_tunnel E session_id local_port target_host target_port ssh_key background w
      = (Return (Some p),
         snd (start_tunnel E session_id local_port target_host target_port ssh_key background w))"
    by (metis prod.collapse)
  from start_tunnel_effect[OF run]
  show "\<exists>r. read_tunnel local_port
                  (snd (start_tunnel E session_id local_port target_host target_port ssh_key
                          background w)) = Some r
               \<and> rec_pid r = int p \<and> rec_session_id r = session_id"
    by (auto simp: read_tunnel_def update_conv')
  fix other
  assume "other \<noteq> local_port"
  with start_tunnel_effect[OF run]
  show "read_tunnel other
          (snd (start_tunnel E session_id local_port target_host target_port ssh_key background w))
        = read_tunnel other w"
    by (auto simp: read_tunnel_def update_conv' tunnel_path_inject)
qed

theorem start_tunnel_overwrites_witness:
  "fst (start_tunnel (demo_env (demo_cli ''ACTIVE'') 1000) ''ocid1.bastionsession.oc1..s1''
          ''8080'' ''10.0.1.5'' ''5432'' None True (registry_world [(4242, 1000)]))
     = Return (Some 4243)
   \<and> read_tunnel ''8080'' (registry_world [(4242, 1000)]) = Some demo_record
   \<and> rec_pid demo_record = 4242
   \<and> (\<exists>r. read_tunnel ''8080''
             (snd (start_tunnel (demo_env (demo_cli ''ACTIVE'') 1000)
                     ''ocid1.bastionsession.oc1..s1'' ''8080'' ''10.0.1.5'' ''5432'' None True
                     (registry_world [(4242, 1000)]))) = Some r
           \<and> rec_pid r = 4243 \<and> rec_session_id r = ''ocid1.bastionsession.oc1..s1'')
   \<and> read_tunnel ''9090''
        (snd (start_tunnel (demo_env (demo_cli ''ACTIVE'') 1000)
                ''ocid1.bastionsession.oc1..s1'' ''8080'' ''10.0.1.5'' ''5432'' None True
                (registry_world [(4242, 1000)])))
       = read_tunnel ''9090'' (registry_world [(4242, 1000)])"
proof -
  let ?E = "demo_env (demo_cli ''ACTIVE'') 1000"
  let ?W = "registry_world [(4242, 1000)]"
  let ?S = "start_tunnel ?E ''ocid1.bastionsession.oc1..s1'' ''8080'' ''10.0.1.5'' ''5432'' None True ?W"
  have run: "fst ?S = Return (Some 4243)"
    by (simp add: run_defs demo_defs)
  have old: "read_tunnel ''8080'' ?W = Some demo_record"
    by (simp add: registry_world_def read_tunnel_def tunnel_path_def)
  have pid: "rec_pid demo_record = 4242"
    by (simp add: demo_record_def)
  have ne: "''9090'' \<noteq> ''8080''" by simp
  note inst = start_tunnel_overwrites[where E = ?E
      and session_id = "''ocid1.bastionsession.oc1..s1''" and local_port = "''8080''"
      and target_host = "''10.0.1.5''" and target_port = "''5432''" and ssh_key = None
      and background = True and w = ?W and fs = "[]"]
  from inst have step: "\<forall>p. fst ?S = Return (Some p) \<longrightarrow>
          (\<exists>r. read_tunnel ''8080'' (snd ?S) = Some r
               \<and> rec_pid r = int p \<and> rec_session_id r = ''ocid1.bastionsession.oc1..s1'')
          \<and> (\<forall>other. other \<noteq> ''8080'' \<longrightarrow>
                read_tunnel other (snd ?S) = read_tunnel other ?W)"
    by (rule conjunct2)
  from run have both: "(\<exists>r. read_tunnel ''8080'' (snd ?S) = Some r
               \<and> rec_pid r = 4243 \<and> rec_session_id r = ''ocid1.bastionsession.oc1..s1'')
          \<and> (\<forall>other. other \<noteq> ''8080'' \<longrightarrow>
                read_tunnel other (snd ?S) = read_tunnel other ?W)"
    using spec[OF step, of 4243] by simp
  from both have new: "\<exists>r. read_tunnel ''8080'' (snd ?S) = Some r
               \<and> rec_pid r = 4243 \<and> rec_session_id r = ''ocid1.bastionsession.oc1..s1''"
    by (rule conjunct1)
  from both have "\<forall>other. other \<noteq> ''8080'' \<longrightarrow>
                read_tunnel other (snd ?S) = read_tunnel other ?W"
    by (rule conjunct2)
  from spec[OF this, of "''9090''"] ne
  have others: "read_tunnel ''9090'' (snd ?S) = read_tunnel ''9090'' ?W"
    by simp
  from run old pid new others show ?thesis
    by (intro conjI)
qed

subsection \<open>The lifecycle state of the session\<close>

text \<open>
  \<^verbatim>\<open>connect_session\<close> of \<^verbatim>\<open>bastion.py\<close> runs the forwarding command only for a session
  whose answer carries the lifecycle state ACTIVE.
\<close>

lemma connect_session_only_active:
  assumes "shell (snd (connect_session E session_id local_port ssh_key w)) \<noteq> shell w"
  shows "\<exists>session.
           stdout (oci_cli E (oci_log w)
                     [''oci'', ''bastion'', ''session'', ''get'', ''--session-id'', session_id,
                      ''--profile'', OCI_PROFILE E, ''--output'', ''json''])
             = Object (Some session)
           \<and> map_of (members session) ''lifecycle-state'' = Some ''ACTIVE''"
  using assms
  by (auto simp: connect_session_def seq_def run_oci_command_def Let_def log_error_def
      log_info_def print_def os_system_def
      split: if_splits stdout.splits option.splits)

text \<open>
  C3. \<^verbatim>\<open>start_tunnel\<close> of \<^verbatim>\<open>backend_sessions.py\<close> has no such check. The service answers
  the lookup of the session with the lifecycle state DELETED; \<^verbatim>\<open>start_tunnel\<close> starts
  the forwarding client as process 1 and registers it, where \<^verbatim>\<open>connect_session\<close> on
  the same session exits with status 1 and runs nothing.
\<close>

theorem start_tunnel_spawns_for_deleted_session:
  "stdout (oci_cli (demo_env (demo_cli ''DELETED'') 1000) []
             [''oci'', ''bastion'', ''session'', ''get'', ''--session-id'',
              ''ocid1.bastionsession.oc1..s1'', ''--profile'', ''DEFAULT'', ''--output'', ''json''])
     = Object (Some (demo_session ''DELETED''))
   \<and> map_of (members (demo_session ''DELETED'')) ''lifecycle-state'' = Some ''DELETED''
   \<and> fst (start_tunnel (demo_env (demo_cli ''DELETED'') 1000) ''ocid1.bastionsession.oc1..s1''
            ''5432'' ''10.0.1.5'' ''5432'' None True (empty_world [])) = Return (Some 1)
   \<and> spawned (snd (start_tunnel (demo_env (demo_cli ''DELETED'') 1000)
                      ''ocid1.bastionsession.oc1..s1'' ''5432'' ''10.0.1.5'' ''5432'' None True
                      (empty_world [])))
       = [ssh_cmd_of ''ocid1.bastionsession.oc1..s1'' ''5432'' ''10.0.1.5'' ''5432''
            ''host.bastion.example'' ''/home/ops/.ssh/id_rsa'']
   \<and> read_tunnel ''5432''
        (snd (start_tunnel (demo_env (demo_cli ''DELETED'') 1000)
                ''ocid1.bastionsession.oc1..s1'' ''5432'' ''10.0.1.5'' ''5432'' None True
                (empty_world [])))
       = Some \<lparr>rec_pid = 1, rec_session_id = ''ocid1.bastionsession.oc1..s1'',
               rec_local_port = ''5432'', rec_target_host = ''10.0.1.5'',
               rec_target_port = ''5432'', rec_bastion_endpoint = ''host.bastion.example''\<rparr>
   \<and> fst (connect_session (demo_env (demo_cli ''DELETED'') 1000) ''ocid1.bastionsession.oc1..s1''
            ''5432'' ''~/.ssh/id_rsa'' (empty_world [])) = Raise (SystemExit 1)
   \<and> shell (snd (connect_session (demo_env (demo_cli ''DELETED'') 1000)
                    ''ocid1.bastionsession.oc1..s1'' ''5432'' ''~/.ssh/id_rsa'' (empty_world [])))
       = []"
  by (simp add: run_defs demo_defs connect_session_def)

subsection \<open>The helpers\<close>

lemma start_tunnel_files:
  assumes "start_tunnel E session_id local_port target_host target_port ssh_key background w = (r, w')"
  shows "files w' = files w
         \<or> (\<exists>p ep. files w' = AList.update (tunnel_path local_port)
                         \<lparr>rec_pid = int p, rec_session_id = session_id, rec_local_port = local_port,
                          rec_target_host = target_host, rec_target_port = target_port,
                          rec_bastion_endpoint = ep\<rparr> (files w))"
  using start_tunnel_effect[OF assms] by blast

lemma helper_tail_files:
  assumes c: "create_port_forward_session E host port session_name bastion_id w = (rc, w1)"
    and s: "start_tunnel E sid local_port host port None True w1 = (rs, w2)"
    and t: "files w' = files w2"
  shows "files w' = files w
         \<or> (\<exists>p s ep. files w' = AList.update (tunnel_path local_port)
                         \<lparr>rec_pid = int p, rec_session_id = s, rec_local_port = local_port,
                          rec_target_host = host, rec_target_port = port,
                          rec_bastion_endpoint = ep\<rparr> (files w))"
proof -
  from create_port_forward_session_frame[OF c] have f1: "files w1 = files w" by simp
  from start_tunnel_files[OF s] f1 t show ?thesis by auto
qed

lemma quick_tunnel_files:
  assumes "quick_tunnel E host port local_port bastion_id w = (r, w')"
  shows "files w' = files w
         \<or> (\<exists>p s ep. files w' = AList.update (tunnel_path (or_else local_port port))
                         \<lparr>rec_pid = int p, rec_session_id = s,
                          rec_local_port = or_else local_port port,
                          rec_target_host = host, rec_target_port = port,
                          rec_bastion_endpoint = ep\<rparr> (files w))"
proof -
  obtain rc w1 where c: "create_port_forward_session E host port ''quick-tunnel'' bastion_id w = (rc, w1)"
    by (cases "create_port_forward_session E host port ''quick-tunnel'' bastion_id w")
  from create_port_forward_session_frame[OF c] have f1: "files w1 = files w" by simp
  show ?thesis
  proof (cases "\<exists>sid. rc = Return (Some sid) \<and> sid \<noteq> [] \<and> host \<noteq> [] \<and> port \<noteq> []")
    case False
    then have "files w' = files w"
      using assms c f1
      by (cases rc) (auto simp: quick_tunnel_def seq_def Let_def log_error_def split: option.splits if_splits)
    then show ?thesis by simp
  next
    case True
    then obtain sid where sid: "rc = Return (Some sid)" "sid \<noteq> []" and ok: "host \<noteq> [] \<and> port \<noteq> []" by blast
    obtain rs w2 where s: "start_tunnel E sid (or_else local_port port) host port None True w1 = (rs, w2)"
      by (cases "start_tunnel E sid (or_else local_port port) host port None True w1")
    have "files w' = files w2"
      using assms c s sid ok
      by (cases rs) (auto simp: quick_tunnel_def seq_def Let_def os_system_def log_info_def sleep_def split: if_splits)
    from helper_tail_files[OF c s this] show ?thesis .
  qed
qed

lemma connect_postgres_files:
  assumes "connect_postgres E host port database username local_port bastion_id w = (r, w')"
  shows "files w' = files w
         \<or> (\<exists>p s ep. files w' = AList.update (tunnel_path (or_else local_port port))
                         \<lparr>rec_pid = int p, rec_session_id = s,
                          rec_local_port = or_else local_port port,
                          rec_target_host = host, rec_target_port = port,
                          rec_bastion_endpoint = ep\<rparr> (files w))"
proof -
  obtain rc w1 where c: "create_port_forward_session E host port ''postgres-session'' bastion_id w = (rc, w1)"
    by (cases "create_port_forward_session E host port ''postgres-session'' bastion_id w")
  from create_port_forward_session_frame[OF c] have f1: "files w1 = files w" by simp
  show ?thesis
  proof (cases "\<exists>sid. rc = Return (Some sid) \<and> sid \<noteq> [] \<and> host \<noteq> [] \<and> port \<noteq> [] \<and> database \<noteq> [] \<and> username \<noteq> []")
    case False
    then have "files w' = files w"
      using assms c f1
      by (cases rc) (auto simp: connect_postgres_def seq_def Let_def log_error_def split: option.splits if_splits)
    then show ?thesis by simp
  next
    case True
    then obtain sid where sid: "rc = Return (Some sid)" "sid \<noteq> []" and ok: "host \<noteq> [] \<and> port \<noteq> [] \<and> database \<noteq> [] \<and> username \<noteq> []" by blast
    obtain rs w2 where s: "start_tunnel E sid (or_else local_port port) host port None True w1 = (rs, w2)"
      by (cases "start_tunnel E sid (or_else local_port port) host port None True w1")
    have "files w' = files w2"
      using assms c s sid ok
      by (cases rs) (auto simp: connect_postgres_def seq_def Let_def os_system_def log_info_def sleep_def split: if_splits)
    from helper_tail_files[OF c s this] show ?thesis .
  qed
qed

lemma connect_mysql_files:
  assumes "connect_mysql E host port database username local_port bastion_id w = (r, w')"
  shows "files w' = files w
         \<or> (\<exists>p s ep. files w' = AList.update (tunnel_path (or_else local_port port))
                         \<lparr>rec_pid = int p, rec_session_id = s,
                          rec_local_port = or_else local_port port,
                          rec_target_host = host, rec_target_port = port,
                          rec_bastion_endpoint = ep\<rparr> (files w))"
proof -
  obtain rc w1 where c: "create_port_forward_session E host port ''mysql-session'' bastion_id w = (rc, w1)"
    by (cases "create_port_forward_session E host port ''mysql-session'' bastion_id w")
  from create_port_forward_session_frame[OF c] have f1: "files w1 = files w" by simp
  show ?thesis
  proof (cases "\<exists>sid. rc = Return (Some sid) \<and> sid \<noteq> [] \<and> host \<noteq> [] \<and> port \<noteq> [] \<and> database \<noteq> [] \<and> username \<noteq> []")
    case False
    then have "files w' = files w"
      using assms c f1
      by (cases rc) (auto simp: connect_mysql_def seq_def Let_def log_error_def split: option.splits if_splits)
    then show ?thesis by simp
  next
    case True
    then obtain sid where sid: "rc = Return (Some sid)" "sid \<noteq> []" and ok: "host \<noteq> [] \<and> port \<noteq> [] \<and> database \<noteq> [] \<and> username \<noteq> []" by blast
    obtain rs w2 where s: "start_tunnel E sid (or_else local_port port) host port None True w1 = (rs, w2)"
      by (cases "start_tunnel E sid (or_else local_port port) host port None True w1")
    have "files w' = files w2"
      using assms c s sid ok
      by (cases rs) (auto simp: connect_mysql_def seq_def Let_def os_system_def log_info_def sleep_def split: if_splits)
    from helper_tail_files[OF c s this] show ?thesis .
  qed
qed

lemma connect_redis_files:
  assumes "connect_redis E host port local_port bastion_id w = (r, w')"
  shows "files w' = files w
         \<or> (\<exists>p s ep. files w' = AList.update (tunnel_path (or_else local_port port))
                         \<lparr>rec_pid = int p, rec_session_id = s,
                          rec_local_port = or_else local_port port,
                          rec_target_host = host, rec_target_port = port,
                          rec_bastion_endpoint = ep\<rparr> (files w))"
proof -
  obtain rc w1 where c: "create_port_forward_session E host port ''redis-session'' bastion_id w = (rc, w1)"
    by (cases "create_port_forward_session E host port ''redis-session'' bastion_id w")
  from create_port_forward_session_frame[OF c] have f1: "files w1 = files w" by simp
  show ?thesis
  proof (cases "\<exists>sid. rc = Return (Some sid) \<and> sid \<noteq> [] \<and> host \<noteq> []")
    case False
    then have "files w' = files w"
      using assms c f1
      by (cases rc) (auto simp: connect_redis_def seq_def Let_def log_error_def split: option.splits if_splits)
    then show ?thesis by simp
  next
    case True
    then obtain sid where sid: "rc = Return (Some sid)" "sid \<noteq> []" and ok: "host \<noteq> []" by blast
    obtain rs w2 where s: "start_tunnel E sid (or_else local_port port) host port None True w1 = (rs, w2)"
      by (cases "start_tunnel E sid (or_else local_port port) host port None True w1")
    have "files w' = files w2"
      using assms c s sid ok
      by (cases rs) (auto simp: connect_redis_def seq_def Let_def os_system_def log_info_def sleep_def split: if_splits)
    from helper_tail_files[OF c s this] show ?thesis .
  qed
qed

lemma connect_mongodb_files:
  assumes "connect_mongodb E host port database local_port bastion_id w = (r, w')"
  shows "files w' = files w
         \<or> (\<exists>p s ep. files w' = AList.update (tunnel_path (or_else local_port port))
                         \<lparr>rec_pid = int p, rec_session_id = s,
                          rec_local_port = or_else local_port port,
                          rec_target_host = host, rec_target_port = port,
                          rec_bastion_endpoint = ep\<rparr> (files w))"
proof -
  obtain rc w1 where c: "create_port_forward_session E host port ''mongodb-session'' bastion_id w = (rc, w1)"
    by (cases "create_port_forward_session E host port ''mongodb-session'' bastion_id w")
  from create_port_forward_session_frame[OF c] have f1: "files w1 = files w" by simp
  show ?thesis
  proof (cases "\<exists>sid. rc = Return (Some sid) \<and> sid \<noteq> [] \<and> host \<noteq> []")
    case False
    then have "files w' = files w"
      using assms c f1
      by (cases rc) (auto simp: connect_mongodb_def seq_def Let_def log_error_def split: option.splits if_splits)
    then show ?thesis by simp
  next
    case True
    then obtain sid where sid: "rc = Return (Some sid)" "sid \<noteq> []" and ok: "host \<noteq> []" by blast
    obtain rs w2 where s: "start_tunnel E sid (or_else local_port port) host port None True w1 = (rs, w2)"
      by (cases "start_tunnel E sid (or_else local_port port) host port None True w1")
    have "files w' = files w2"
      using assms c s sid ok
      by (cases rs) (auto simp: connect_mongodb_def seq_def Let_def os_system_def log_info_def sleep_def split: if_splits)
    from helper_tail_files[OF c s this] show ?thesis .
  qed
qed

lemma new_record_default_port:
  assumes "files w' = files w
         \<or> (\<exists>p s ep. files w' = AList.update (tunnel_path (or_else None port))
                         \<lparr>rec_pid = int p, rec_session_id = s,
                          rec_local_port = or_else None port,
                          rec_target_host = host, rec_target_port = port,
                          rec_bastion_endpoint = ep\<rparr> (files w))"
    and "map_of (files w') name = Some r"
    and "map_of (files w) name \<noteq> Some r"
  shows "name = tunnel_path port \<and> rec_local_port r = port \<and> rec_target_port r = port
         \<and> rec_target_host r = host"
  using assms by (auto simp: or_else_def update_conv' split: if_splits)

text \<open>
  Whatever the service answers, a helper called without a local port writes or changes
  no record but the one of the file of the target port, with the target port for its
  local port.
\<close>

lemma helpers_write_only_target_port:
  assumes "w' = snd (quick_tunnel E host port None bastion_id w)
         \<or> w' = snd (connect_postgres E host port database username None bastion_id w)
         \<or> w' = snd (connect_mysql E host port database username None bastion_id w)
         \<or> w' = snd (connect_redis E host port None bastion_id w)
         \<or> w' = snd (connect_mongodb E host port database None bastion_id w)"
    and "map_of (files w') name = Some r"
    and "map_of (files w) name \<noteq> Some r"
  shows "name = tunnel_path port \<and> rec_local_port r = port \<and> rec_target_port r = port"
proof -
  have "files w' = files w
         \<or> (\<exists>p s ep. files w' = AList.update (tunnel_path (or_else None port))
                         \<lparr>rec_pid = int p, rec_session_id = s,
                          rec_local_port = or_else None port,
                          rec_target_host = host, rec_target_port = port,
                          rec_bastion_endpoint = ep\<rparr> (files w))"
    using assms(1)
  proof (elim disjE)
    assume "w' = snd (quick_tunnel E host port None bastion_id w)"
    then have "quick_tunnel E host port None bastion_id w
                 = (fst (quick_tunnel E host port None bastion_id w), w')" by simp
    from quick_tunnel_files[OF this] show ?thesis .
  next
    assume "w' = snd (connect_postgres E host port database username None bastion_id w)"
    then have "connect_postgres E host port database username None bastion_id w
                 = (fst (connect_postgres E host port database username None bastion_id w), w')"
      by simp
    from connect_postgres_files[OF this] show ?thesis .
  next
    assume "w' = snd (connect_mysql E host port database username None bastion_id w)"
    then have "connect_mysql E host port database username None bastion_id w
                 = (fst (connect_mysql E host port database username None bastion_id w), w')"
      by simp
    from connect_mysql_files[OF this] show ?thesis .
  next
    assume "w' = snd (connect_redis E host port None bastion_id w)"
    then have "connect_redis E host port None bastion_id w
                 = (fst (connect_redis E host port None bastion_id w), w')" by simp
    from connect_redis_files[OF this] show ?thesis .
  next
    assume "w' = snd (connect_mongodb E host port database None bastion_id w)"
    then have "connect_mongodb E host port database None bastion_id w
                 = (fst (connect_mongodb E host port database None bastion_id w), w')" by simp
    from connect_mongodb_files[OF this] show ?thesis .
  qed
  from new_record_default_port[OF this assms(2,3)] show ?thesis by simp
qed

lemma create_granted:
  assumes "service_grants E (oci_log w) session_name host port bastion_id sid bid ep"
  shows "\<exists>w1. create_port_forward_session E host port session_name bastion_id w
                = (Return (Some sid), w1)
              \<and> oci_log w1 = oci_log w @ [create_cmd E session_name host port bastion_id]
              \<and> files w1 = files w \<and> procs w1 = procs w"
  using assms
  by (auto simp: service_grants_def lookup_grants_def member_of_def create_cmd_def
      create_port_forward_session_def run_oci_command_def seq_def Let_def
      log_info_def log_success_def
      split: stdout.splits option.splits)

lemma start_granted:
  assumes "lookup_grants E (oci_log w) sid bid ep" and "CHR ''/'' \<notin> set local_port"
  shows "\<exists>w'. start_tunnel E sid local_port host port None True w
                = (Return (Some (new_pid E (procs w))), w')
              \<and> files w' = AList.update (tunnel_path local_port)
                    \<lparr>rec_pid = int (new_pid E (procs w)), rec_session_id = sid,
                     rec_local_port = local_port, rec_target_host = host,
                     rec_target_port = port, rec_bastion_endpoint = ep\<rparr> (files w)"
  using assms
  by (auto simp: lookup_grants_def member_of_def start_tunnel_def run_oci_command_def seq_def
      Let_def Popen_def write_file_def ssh_cmd_of_def tunnel_path_def log_info_def
      log_success_def
      split: stdout.splits option.splits)

lemma helper_registers:
  assumes g: "service_grants E (oci_log w) session_name host port bastion_id sid bid ep"
    and s: "CHR ''/'' \<notin> set port"
  shows "\<exists>w1 w2. create_port_forward_session E host port session_name bastion_id w
                   = (Return (Some sid), w1)
                 \<and> start_tunnel E sid port host port None True w1
                   = (Return (Some (new_pid E (procs w))), w2)
                 \<and> read_tunnel port w2
                   = Some \<lparr>rec_pid = int (new_pid E (procs w)), rec_session_id = sid,
                           rec_local_port = port, rec_target_host = host,
                           rec_target_port = port, rec_bastion_endpoint = ep\<rparr>"
proof -
  from create_granted[OF g] obtain w1 where
    c: "create_port_forward_session E host port session_name bastion_id w = (Return (Some sid), w1)"
    and l: "oci_log w1 = oci_log w @ [create_cmd E session_name host port bastion_id]"
    and p: "procs w1 = procs w"
    by blast
  from g l have "lookup_grants E (oci_log w1) sid bid ep"
    by (simp add: service_grants_def Let_def)
  from start_granted[OF this s, of host port] obtain w2 where
    t: "start_tunnel E sid port host port None True w1 = (Return (Some (new_pid E (procs w1))), w2)"
    and f: "files w2 = AList.update (tunnel_path port)
                    \<lparr>rec_pid = int (new_pid E (procs w1)), rec_session_id = sid,
                     rec_local_port = port, rec_target_host = host,
                     rec_target_port = port, rec_bastion_endpoint = ep\<rparr> (files w1)"
    by blast
  from f have "read_tunnel port w2
                   = Some \<lparr>rec_pid = int (new_pid E (procs w1)), rec_session_id = sid,
                           rec_local_port = port, rec_target_host = host,
                           rec_target_port = port, rec_bastion_endpoint = ep\<rparr>"
    by (simp add: read_tunnel_def update_conv')
  with c t p show ?thesis by simp
qed

lemma granted_args:
  "service_grants E history session_name host port bastion_id sid bid ep \<Longrightarrow>
     host \<noteq> [] \<and> port \<noteq> [] \<and> sid \<noteq> []"
  by (simp add: service_grants_def Let_def)

lemma quick_tunnel_registers:
  assumes g: "service_grants E (oci_log w) ''quick-tunnel'' host port bastion_id sid bid ep"
    and s: "CHR ''/'' \<notin> set port"
  shows "read_tunnel port (snd (quick_tunnel E host port None bastion_id w))
         = Some \<lparr>rec_pid = int (new_pid E (procs w)), rec_session_id = sid,
                 rec_local_port = port, rec_target_host = host,
                 rec_target_port = port, rec_bastion_endpoint = ep\<rparr>"
proof -
  from helper_registers[OF g s] obtain w1 w2 where
    c: "create_port_forward_session E host port ''quick-tunnel'' bastion_id w = (Return (Some sid), w1)"
    and t: "start_tunnel E sid port host port None True w1
              = (Return (Some (new_pid E (procs w))), w2)"
    and r: "read_tunnel port w2
              = Some \<lparr>rec_pid = int (new_pid E (procs w)), rec_session_id = sid,
                 rec_local_port = port, rec_target_host = host,
                 rec_target_port = port, rec_bastion_endpoint = ep\<rparr>"
    by blast
  from granted_args[OF g] have a: "host \<noteq> []" "port \<noteq> []" "sid \<noteq> []" by simp_all
  have "files (snd (quick_tunnel E host port None bastion_id w)) = files w2"
    using a c t
    by (simp add: quick_tunnel_def seq_def or_else_def os_system_def log_info_def sleep_def)
  with r show ?thesis by (simp add: read_tunnel_def)
qed

lemma connect_postgres_registers:
  assumes g: "service_grants E (oci_log w) ''postgres-session'' host port bastion_id sid bid ep"
    and s: "CHR ''/'' \<notin> set port"
    and e: "database \<noteq> []" "username \<noteq> []"
  shows "read_tunnel port (snd (connect_postgres E host port database username None bastion_id w))
         = Some \<lparr>rec_pid = int (new_pid E (procs w)), rec_session_id = sid,
                 rec_local_port = port, rec_target_host = host,
                 rec_target_port = port, rec_bastion_endpoint = ep\<rparr>"
proof -
  from helper_registers[OF g s] obtain w1 w2 where
    c: "create_port_forward_session E host port ''postgres-session'' bastion_id w = (Return (Some sid), w1)"
    and t: "start_tunnel E sid port host port None True w1
              = (Return (Some (new_pid E (procs w))), w2)"
    and r: "read_tunnel port w2
              = Some \<lparr>rec_pid = int (new_pid E (procs w)), rec_session_id = sid,
                 rec_local_port = port, rec_target_host = host,
                 rec_target_port = port, rec_bastion_endpoint = ep\<rparr>"
    by blast
  from granted_args[OF g] have a: "host \<noteq> []" "port \<noteq> []" "sid \<noteq> []" by simp_all
  have "files (snd (connect_postgres E host port database username None bastion_id w)) = files w2"
    using a c t e
    by (simp add: connect_postgres_def seq_def or_else_def os_system_def log_info_def sleep_def)
  with r show ?thesis by (simp add: read_tunnel_def)
qed

lemma connect_mysql_registers:
  assumes g: "service_grants E (oci_log w) ''mysql-session'' host port bastion_id sid bid ep"
    and s: "CHR ''/'' \<notin> set port"
    and e: "database \<noteq> []" "username \<noteq> []"
  shows "read_tunnel port (snd (connect_mysql E host port database username None bastion_id w))
         = Some \<lparr>rec_pid = int (new_pid E (procs w)), rec_session_id = sid,
                 rec_local_port = port, rec_target_host = host,
                 rec_target_port = port, rec_bastion_endpoint = ep\<rparr>"
proof -
  from helper_registers[OF g s] obtain w1 w2 where
    c: "create_port_forward_session E host port ''mysql-session'' bastion_id w = (Return (Some sid), w1)"
    and t: "start_tunnel E sid port host port None True w1
              = (Return (Some (new_pid E (procs w))), w2)"
    and r: "read_tunnel port w2
              = Some \<lparr>rec_pid = int (new_pid E (procs w)), rec_session_id = sid,
                 rec_local_port = port, rec_target_host = host,
                 rec_target_port = port, rec_bastion_endpoint = ep\<rparr>"
    by blast
  from granted_args[OF g] have a: "host \<noteq> []" "port \<noteq> []" "sid \<noteq> []" by simp_all
  have "files (snd (connect_mysql E host port database username None bastion_id w)) = files w2"
    using a c t e
    by (simp add: connect_mysql_def seq_def or_else_def os_system_def log_info_def sleep_def)
  with r show ?thesis by (simp add: read_tunnel_def)
qed

lemma connect_redis_registers:
  assumes g: "service_grants E (oci_log w) ''redis-session'' host port bastion_id sid bid ep"
    and s: "CHR ''/'' \<notin> set port"
  shows "read_tunnel port (snd (connect_redis E host port None bastion_id w))
         = Some \<lparr>rec_pid = int (new_pid E (procs w)), rec_session_id = sid,
                 rec_local_port = port, rec_target_host = host,
                 rec_target_port = port, rec_bastion_endpoint = ep\<rparr>"
proof -
  from helper_registers[OF g s] obtain w1 w2 where
    c: "create_port_forward_session E host port ''redis-session'' bastion_id w = (Return (Some sid), w1)"
    and t: "start_tunnel E sid port host port None True w1
              = (Return (Some (new_pid E (procs w))), w2)"
    and r: "read_tunnel port w2
              = Some \<lparr>rec_pid = int (new_pid E (procs w)), rec_session_id = sid,
                 rec_local_port = port, rec_target_host = host,
                 rec_target_port = port, rec_bastion_endpoint = ep\<rparr>"
    by blast
  from granted_args[OF g] have a: "host \<noteq> []" "port \<noteq> []" "sid \<noteq> []" by simp_all
  have "files (snd (connect_redis E host port None bastion_id w)) = files w2"
    using a c t
    by (simp add: connect_redis_def seq_def or_else_def os_system_def log_info_def sleep_def)
  with r show ?thesis by (simp add: read_tunnel_def)
qed

lemma connect_mongodb_registers:
  assumes g: "service_grants E (oci_log w) ''mongodb-session'' host port bastion_id sid bid ep"
    and s: "CHR ''/'' \<notin> set port"
  shows "read_tunnel port (snd (connect_mongodb E host port database None bastion_id w))
         = Some \<lparr>rec_pid = int (new_pid E (procs w)), rec_session_id = sid,
                 rec_local_port = port, rec_target_host = host,
                 rec_target_port = port, rec_bastion_endpoint = ep\<rparr>"
proof -
  from helper_registers[OF g s] obtain w1 w2 where
    c: "create_port_forward_session E host port ''mongodb-session'' bastion_id w = (Return (Some sid), w1)"
    and t: "start_tunnel E sid port host port None True w1
              = (Return (Some (new_pid E (procs w))), w2)"
    and r: "read_tunnel port w2
              = Some \<lparr>rec_pid = int (new_pid E (procs w)), rec_session_id = sid,
                 rec_local_port = port, rec_target_host = host,
                 rec_target_port = port, rec_bastion_endpoint = ep\<rparr>"
    by blast
  from granted_args[OF g] have a: "host \<noteq> []" "port \<noteq> []" "sid \<noteq> []" by simp_all
  have "files (snd (connect_mongodb E host port database None bastion_id w)) = files w2"
    using a c t
    by (simp add: connect_mongodb_def seq_def or_else_def os_system_def log_info_def sleep_def)
  with r show ?thesis by (simp add: read_tunnel_def)
qed

text \<open>
  C10. Let the bastion service grant a tunnel to the target: it answers the creation
  with a session id, the lookup of the session with its bastion and the lookup of the
  bastion with its endpoint, and \<^verbatim>\<open>oci\<close> and \<^verbatim>\<open>ssh\<close> are installed. Then each of the five
  helpers, called without a local port, registers the tunnel under the target port: the
  record read back for the target port holds the process id of the child, the session
  id, and the target port both as its local port and as its target port.
\<close>

theorem helpers_register_under_target_port:
  assumes "CHR ''/'' \<notin> set port"
  shows "(let registered =
            Some \<lparr>rec_pid = int (new_pid E (procs w)), rec_session_id = sid,
                   rec_local_port = port, rec_target_host = host,
                   rec_target_port = port, rec_bastion_endpoint = ep\<rparr>
          in (service_grants E (oci_log w) ''quick-tunnel'' host port bastion_id sid bid ep \<longrightarrow>
                read_tunnel port (snd (quick_tunnel E host port None bastion_id w)) = registered)
           \<and> (service_grants E (oci_log w) ''postgres-session'' host port bastion_id sid bid ep
                \<and> database \<noteq> [] \<and> username \<noteq> [] \<longrightarrow>
                read_tunnel port
                  (snd (connect_postgres E host port database username None bastion_id w))
                = registered)
           \<and> (service_grants E (oci_log w) ''mysql-session'' host port bastion_id sid bid ep
                \<and> database \<noteq> [] \<and> username \<noteq> [] \<longrightarrow>
                read_tunnel port
                  (snd (connect_mysql E host port database username None bastion_id w))
                = registered)
           \<and> (service_grants E (oci_log w) ''redis-session'' host port bastion_id sid bid ep \<longrightarrow>
                read_tunnel port (snd (connect_redis E host port None bastion_id w)) = registered)
           \<and> (service_grants E (oci_log w) ''mongodb-session'' host port bastion_id sid bid ep \<longrightarrow>
                read_tunnel port (snd (connect_mongodb E host port database None bastion_id w))
                = registered))"
  unfolding Let_def
proof (intro conjI impI)
  assume "service_grants E (oci_log w) ''quick-tunnel'' host port bastion_id sid bid ep"
  from quick_tunnel_registers[OF this assms]
  show "read_tunnel port (snd (quick_tunnel E host port None bastion_id w))
        = Some \<lparr>rec_pid = int (new_pid E (procs w)), rec_session_id = sid,
               rec_local_port = port, rec_target_host = host,
               rec_target_port = port, rec_bastion_endpoint = ep\<rparr>" .
next
  assume "service_grants E (oci_log w) ''postgres-session'' host port bastion_id sid bid ep
          \<and> database \<noteq> [] \<and> username \<noteq> []"
  then have g: "service_grants E (oci_log w) ''postgres-session'' host port bastion_id sid bid ep"
    and e: "database \<noteq> []" "username \<noteq> []" by simp_all
  from connect_postgres_registers[OF g assms e]
  show "read_tunnel port (snd (connect_postgres E host port database username None bastion_id w))
        = Some \<lparr>rec_pid = int (new_pid E (procs w)), rec_session_id = sid,
               rec_local_port = port, rec_target_host = host,
               rec_target_port = port, rec_bastion_endpoint = ep\<rparr>" .
next
  assume "service_grants E (oci_log w) ''mysql-session'' host port bastion_id sid bid ep
          \<and> database \<noteq> [] \<and> username \<noteq> []"
  then have g: "service_grants E (oci_log w) ''mysql-session'' host port bastion_id sid bid ep"
    and e: "database \<noteq> []" "username \<noteq> []" by simp_all
  from connect_mysql_registers[OF g assms e]
  show "read_tunnel port (snd (connect_mysql E host port database username None bastion_id w))
        = Some \<lparr>rec_pid = int (new_pid E (procs w)), rec_session_id = sid,
               rec_local_port = port, rec_target_host = host,
               rec_target_port = port, rec_bastion_endpoint = ep\<rparr>" .
next
  assume "service_grants E (oci_log w) ''redis-session'' host port bastion_id sid bid ep"
  from connect_redis_registers[OF this assms]
  show "read_tunnel port (snd (connect_redis E host port None bastion_id w))
        = Some \<lparr>rec_pid = int (new_pid E (procs w)), rec_session_id = sid,
               rec_local_port = port, rec_target_host = host,
               rec_target_port = port, rec_bastion_endpoint = ep\<rparr>" .
next
  assume "service_grants E (oci_log w) ''mongodb-session'' host port bastion_id sid bid ep"
  from connect_mongodb_registers[OF this assms]
  show "read_tunnel port (snd (connect_mongodb E host port database None bastion_id w))
        = Some \<lparr>rec_pid = int (new_pid E (procs w)), rec_session_id = sid,
               rec_local_port = port, rec_target_host = host,
               rec_target_port = port, rec_bastion_endpoint = ep\<rparr>" .
qed

theorem helpers_register_under_target_port_witness:
  "CHR ''/'' \<notin> set ''5432''
   \<and> service_grants (demo_env (demo_cli ''ACTIVE'') 1000) (oci_log (empty_world []))
        ''quick-tunnel'' ''10.0.1.5'' ''5432'' None
        ''ocid1.bastionsession.oc1..s1'' ''ocid1.bastion.oc1..b1'' ''host.bastion.example''
   \<and> service_grants (demo_env (demo_cli ''ACTIVE'') 1000) (oci_log (empty_world []))
        ''postgres-session'' ''10.0.1.5'' ''5432'' None
        ''ocid1.bastionsession.oc1..s1'' ''ocid1.bastion.oc1..b1'' ''host.bastion.example''
   \<and> service_grants (demo_env (demo_cli ''ACTIVE'') 1000) (oci_log (empty_world []))
        ''mysql-session'' ''10.0.1.5'' ''5432'' None
        ''ocid1.bastionsession.oc1..s1'' ''ocid1.bastion.oc1..b1'' ''host.bastion.example''
   \<and> service_grants (demo_env (demo_cli ''ACTIVE'') 1000) (oci_log (empty_world []))
        ''redis-session'' ''10.0.1.5'' ''5432'' None
        ''ocid1.bastionsession.oc1..s1'' ''ocid1.bastion.oc1..b1'' ''host.bastion.example''
   \<and> service_grants (demo_env (demo_cli ''ACTIVE'') 1000) (oci_log (empty_world []))
        ''mongodb-session'' ''10.0.1.5'' ''5432'' None
        ''ocid1.bastionsession.oc1..s1'' ''ocid1.bastion.oc1..b1'' ''host.bastion.example''
   \<and> read_tunnel ''5432''
        (snd (quick_tunnel (demo_env (demo_cli ''ACTIVE'') 1000) ''10.0.1.5'' ''5432'' None None
                (empty_world [])))
       = Some \<lparr>rec_pid = 1, rec_session_id = ''ocid1.bastionsession.oc1..s1'',
               rec_local_port = ''5432'', rec_target_host = ''10.0.1.5'',
               rec_target_port = ''5432'', rec_bastion_endpoint = ''host.bastion.example''\<rparr>
   \<and> read_tunnel ''5432''
        (snd (connect_postgres (demo_env (demo_cli ''ACTIVE'') 1000) ''10.0.1.5'' ''5432''
                ''orders'' ''ops'' None None (empty_world [])))
       = Some \<lparr>rec_pid = 1, rec_session_id = ''ocid1.bastionsession.oc1..s1'',
               rec_local_port = ''5432'', rec_target_host = ''10.0.1.5'',
               rec_target_port = ''5432'', rec_bastion_endpoint = ''host.bastion.example''\<rparr>
   \<and> read_tunnel ''5432''
        (snd (connect_mysql (demo_env (demo_cli ''ACTIVE'') 1000) ''10.0.1.5'' ''5432''
                ''orders'' ''ops'' None None (empty_world [])))
       = Some \<lparr>rec_pid = 1, rec_session_id = ''ocid1.bastionsession.oc1..s1'',
               rec_local_port = ''5432'', rec_target_host = ''10.0.1.5'',
               rec_target_port = ''5432'', rec_bastion_endpoint = ''host.bastion.example''\<rparr>
   \<and> read_tunnel ''5432''
        (snd (connect_redis (demo_env (demo_cli ''ACTIVE'') 1000) ''10.0.1.5'' ''5432'' None None
                (empty_world [])))
       = Some \<lparr>rec_pid = 1, rec_session_id = ''ocid1.bastionsession.oc1..s1'',
               rec_local_port = ''5432'', rec_target_host = ''10.0.1.5'',
               rec_target_port = ''5432'', rec_bastion_endpoint = ''host.bastion.example''\<rparr>
   \<and> read_tunnel ''5432''
        (snd (connect_mongodb (demo_env (demo_cli ''ACTIVE'') 1000) ''10.0.1.5'' ''5432''
                ''orders'' None None (empty_world [])))
       = Some \<lparr>rec_pid = 1, rec_session_id = ''ocid1.bastionsession.oc1..s1'',
               rec_local_port = ''5432'', rec_target_host = ''10.0.1.5'',
               rec_target_port = ''5432'', rec_bastion_endpoint = ''host.bastion.example''\<rparr>"
proof -
  let ?E = "demo_env (demo_cli ''ACTIVE'') 1000"
  let ?W = "empty_world []"
  let ?R = "Some \<lparr>rec_pid = 1, rec_session_id = ''ocid1.bastionsession.oc1..s1'',
               rec_local_port = ''5432'', rec_target_host = ''10.0.1.5'',
               rec_target_port = ''5432'', rec_bastion_endpoint = ''host.bastion.example''\<rparr>"
  have slash: "CHR ''/'' \<notin> set ''5432''" by simp
  have grants: "service_grants ?E (oci_log ?W) name ''10.0.1.5'' ''5432'' None
        ''ocid1.bastionsession.oc1..s1'' ''ocid1.bastion.oc1..b1'' ''host.bastion.example''"
    for name
    by (simp add: service_grants_def lookup_grants_def member_of_def create_cmd_def or_else_def
        demo_defs Let_def)
  have pid: "int (new_pid ?E (procs ?W)) = 1"
    by (simp add: demo_env_def empty_world_def)
  have db: "''orders'' \<noteq> []" "''ops'' \<noteq> []" by simp_all
  note inst = helpers_register_under_target_port[OF slash, where E = ?E and w = ?W
      and host = "''10.0.1.5''" and bastion_id = None
      and sid = "''ocid1.bastionsession.oc1..s1''" and bid = "''ocid1.bastion.oc1..b1''"
      and ep = "''host.bastion.example''" and database = "''orders''" and username = "''ops''",
      unfolded Let_def pid]
  from inst grants[of "''quick-tunnel''"]
  have r1: "read_tunnel ''5432'' (snd (quick_tunnel ?E ''10.0.1.5'' ''5432'' None None ?W)) = ?R"
    by blast
  from inst grants[of "''postgres-session''"] db
  have r2: "read_tunnel ''5432''
              (snd (connect_postgres ?E ''10.0.1.5'' ''5432'' ''orders'' ''ops'' None None ?W)) = ?R"
    by blast
  from inst grants[of "''mysql-session''"] db
  have r3: "read_tunnel ''5432''
              (snd (connect_mysql ?E ''10.0.1.5'' ''5432'' ''orders'' ''ops'' None None ?W)) = ?R"
    by blast
  from inst grants[of "''redis-session''"]
  have r4: "read_tunnel ''5432'' (snd (connect_redis ?E ''10.0.1.5'' ''5432'' None None ?W)) = ?R"
    by blast
  from inst grants[of "''mongodb-session''"]
  have r5: "read_tunnel ''5432''
              (snd (connect_mongodb ?E ''10.0.1.5'' ''5432'' ''orders'' None None ?W)) = ?R"
    by blast
  from slash grants r1 r2 r3 r4 r5 show ?thesis
    by (intro conjI)
qed

text \<open>
  C6. When the creation of the session gives no session (it returns \<^verbatim>\<open>None\<close> or an
  empty id, or raises, as it does when the client times out waiting for ACTIVE),
  \<^verbatim>\<open>quick_tunnel\<close> ends with an exit status other than 0, and nothing happens after
  the creation: the world it leaves is the one the creation left. No file is written,
  no process started, and the OCI client is not run again.
\<close>

theorem quick_tunnel_aborts_without_session:
  assumes "fst (create_port_forward_session E target_host target_port ''quick-tunnel'' bastion_id w)
             = Return None
         \<or> fst (create_port_forward_session E target_host target_port ''quick-tunnel'' bastion_id w)
             = Return (Some [])
         \<or> (\<exists>e. fst (create_port_forward_session E target_host target_port ''quick-tunnel''
                         bastion_id w) = Raise e)"
  shows "exit_status (fst (quick_tunnel E target_host target_port local_port bastion_id w)) = Some 1
         \<and> files (snd (quick_tunnel E target_host target_port local_port bastion_id w)) = files w
         \<and> spawned (snd (quick_tunnel E target_host target_port local_port bastion_id w)) = spawned w
         \<and> procs (snd (quick_tunnel E target_host target_port local_port bastion_id w)) = procs w
         \<and> oci_log (snd (quick_tunnel E target_host target_port local_port bastion_id w))
           = oci_log (snd (create_port_forward_session E target_host target_port ''quick-tunnel''
                             bastion_id w))"
proof -
  obtain rc w1 where
    c: "create_port_forward_session E target_host target_port ''quick-tunnel'' bastion_id w = (rc, w1)"
    by (cases "create_port_forward_session E target_host target_port ''quick-tunnel'' bastion_id w")
  from create_port_forward_session_frame[OF c]
  have frame: "files w1 = files w" "spawned w1 = spawned w" "procs w1 = procs w" by simp_all
  from assms c have rc: "rc = Return None \<or> rc = Return (Some []) \<or> (\<exists>e. rc = Raise e)"
    by simp
  from create_port_forward_session_outcome[OF c]
  have raised: "\<And>e. rc = Raise e \<Longrightarrow> exit_status (Raise e :: unit outcome) = Some 1"
    by auto
  show ?thesis
  proof (cases "target_host = [] \<or> target_port = []")
    case True
    then have q: "quick_tunnel E target_host target_port local_port bastion_id w
        = (Raise (SystemExit 1),
           log_error ''Usage: quick-tunnel <target_host> <target_port> [local_port] [bastion_id]'' w)"
      by (simp add: quick_tunnel_def)
    from True c have "oci_log w1 = oci_log w"
      by (auto simp: create_port_forward_session_def Let_def log_error_def)
    with q c show ?thesis by (simp add: log_error_def)
  next
    case False
    from rc consider "rc = Return None" | "rc = Return (Some [])" | e where "rc = Raise e"
      by blast
    then show ?thesis
    proof cases
      case 1
      with False c have "quick_tunnel E target_host target_port local_port bastion_id w
                           = (Raise (SystemExit 1), w1)"
        by (simp add: quick_tunnel_def seq_def Let_def)
      with c frame show ?thesis by simp
    next
      case 2
      with False c have "quick_tunnel E target_host target_port local_port bastion_id w
                           = (Raise (SystemExit 1), w1)"
        by (simp add: quick_tunnel_def seq_def Let_def)
      with c frame show ?thesis by simp
    next
      case 3
      with False c have "quick_tunnel E target_host target_port local_port bastion_id w
                           = (Raise e, w1)"
        by (simp add: quick_tunnel_def seq_def Let_def)
      with c frame raised[OF 3] show ?thesis by simp
    qed
  qed
qed

theorem quick_tunnel_aborts_without_session_witness:
  "fst (create_port_forward_session (demo_env timeout_cli 1000) ''10.0.1.5'' ''5432''
          ''quick-tunnel'' None (empty_world [])) = Raise CalledProcessError
   \<and> exit_status (fst (quick_tunnel (demo_env timeout_cli 1000) ''10.0.1.5'' ''5432'' None None
                         (empty_world []))) = Some 1
   \<and> files (snd (quick_tunnel (demo_env timeout_cli 1000) ''10.0.1.5'' ''5432'' None None
                    (empty_world []))) = []
   \<and> spawned (snd (quick_tunnel (demo_env timeout_cli 1000) ''10.0.1.5'' ''5432'' None None
                      (empty_world []))) = []"
proof -
  have h: "fst (create_port_forward_session (demo_env timeout_cli 1000) ''10.0.1.5'' ''5432''
          ''quick-tunnel'' None (empty_world [])) = Raise CalledProcessError"
    by (simp add: run_defs demo_defs)
  have e: "files (empty_world []) = []" "spawned (empty_world []) = []"
    by (simp_all add: empty_world_def)
  from h have "fst (create_port_forward_session (demo_env timeout_cli 1000) ''10.0.1.5'' ''5432''
             ''quick-tunnel'' None (empty_world [])) = Return None
         \<or> fst (create_port_forward_session (demo_env timeout_cli 1000) ''10.0.1.5'' ''5432''
             ''quick-tunnel'' None (empty_world [])) = Return (Some [])
         \<or> (\<exists>e. fst (create_port_forward_session (demo_env timeout_cli 1000) ''10.0.1.5'' ''5432''
             ''quick-tunnel'' None (empty_world [])) = Raise e)"
    by simp
  from quick_tunnel_aborts_without_session[OF this, of None] h e show ?thesis
    by simp
qed

subsection \<open>Deleting a session\<close>

lemma confirm_action_cases:
  "confirm_action message w =
     (case stdin w of
        [] \<Rightarrow> (Raise EOFError, w\<lparr>out := out w @ [Prompt (message @ '' (y/N): '')]\<rparr>)
      | response # rest \<Rightarrow>
          (Return (affirmative response),
           w\<lparr>out := out w @ [Prompt (message @ '' (y/N): '')], stdin := rest\<rparr>))"
  by (simp add: confirm_action_def affirmative_def Let_def split: list.splits)

lemma delete_session_confirmed:
  assumes "session_id \<noteq> []" and "stdin w = response # rest" and "affirmative response"
  shows "delete_session E session_id w =
           seq (run_oci_command E
                  [''bastion'', ''session'', ''delete'', ''--session-id'', session_id, ''--force'']
                  (OCI_PROFILE E) False True
                  (w\<lparr>out := out w @ [Warn ''Deleting session...'', Prompt ''Continue? (y/N): ''],
                     stdin := rest\<rparr>))
             (\<lambda>_ w2. (Return (), log_success ''Session deleted'' w2))"
  using assms
  by (simp add: delete_session_def confirm_action_cases seq_def log_warn_def)

lemma delete_session_unconfirmed:
  assumes "\<not> (\<exists>response rest. stdin w = response # rest \<and> affirmative response)"
  shows "oci_log (snd (delete_session E session_id w)) = oci_log w
         \<and> files (snd (delete_session E session_id w)) = files w
         \<and> procs (snd (delete_session E session_id w)) = procs w
         \<and> spawned (snd (delete_session E session_id w)) = spawned w
         \<and> fst (delete_session E session_id w) \<noteq> Raise CalledProcessError"
  using assms
  by (cases "stdin w")
     (auto simp: delete_session_def confirm_action_cases seq_def log_warn_def log_error_def
        log_info_def)

text \<open>
  C4 as it is written fails. The first deletion succeeds; on the second the service
  answers that it has no such session, the client exits with status 1, and
  \<^verbatim>\<open>delete_session\<close> raises \<^verbatim>\<open>CalledProcessError\<close>, which ends the command with status 1.
\<close>

theorem delete_session_twice_counterexample:
  "fst (delete_session (demo_env (demo_cli ''ACTIVE'') 1000) ''ocid1.bastionsession.oc1..s1''
          (empty_world [''y'', ''y''])) = Return ()
   \<and> fst (delete_session (demo_env (demo_cli ''ACTIVE'') 1000) ''ocid1.bastionsession.oc1..s1''
            (snd (delete_session (demo_env (demo_cli ''ACTIVE'') 1000)
                    ''ocid1.bastionsession.oc1..s1'' (empty_world [''y'', ''y'']))))
       = Raise CalledProcessError
   \<and> exit_status
        (fst (delete_session (demo_env (demo_cli ''ACTIVE'') 1000) ''ocid1.bastionsession.oc1..s1''
                (snd (delete_session (demo_env (demo_cli ''ACTIVE'') 1000)
                        ''ocid1.bastionsession.oc1..s1'' (empty_world [''y'', ''y''])))))
       = Some 1"
  by (simp add: delete_session_def confirm_action_def lower_def lower_char_def run_defs demo_defs)

text \<open>
  C4, as amended. \<^verbatim>\<open>delete_session\<close> adds nothing of its own to the answer of the
  service: once the user has confirmed, it returns normally when the OCI client exits
  with status 0 and raises \<^verbatim>\<open>CalledProcessError\<close> when the client exits with any other
  status, on a first deletion as on a repeated one.
\<close>

theorem delete_session_passes_cli_status:
  assumes "session_id \<noteq> []" and "on_path E ''oci''"
    and "stdin w = response # rest" and "affirmative response"
  shows "fst (delete_session E session_id w)
         = (if returncode (oci_cli E (oci_log w)
                             [''oci'', ''bastion'', ''session'', ''delete'', ''--session-id'',
                              session_id, ''--force'', ''--profile'', OCI_PROFILE E]) = 0
            then Return () else Raise CalledProcessError)"
  unfolding delete_session_confirmed[OF assms(1,3,4)]
  using assms(2) by (simp add: run_oci_command_def seq_def Let_def)

theorem delete_session_passes_cli_status_witness:
  "''ocid1.bastionsession.oc1..s1'' \<noteq> [] \<and> on_path (demo_env (demo_cli ''ACTIVE'') 1000) ''oci''
   \<and> stdin (empty_world [''yes'']) = [''yes''] \<and> affirmative ''yes''
   \<and> returncode (oci_cli (demo_env (demo_cli ''ACTIVE'') 1000) (oci_log (empty_world [''yes'']))
                    [''oci'', ''bastion'', ''session'', ''delete'', ''--session-id'',
                     ''ocid1.bastionsession.oc1..s1'', ''--force'', ''--profile'',
                     OCI_PROFILE (demo_env (demo_cli ''ACTIVE'') 1000)]) = 0
   \<and> fst (delete_session (demo_env (demo_cli ''ACTIVE'') 1000) ''ocid1.bastionsession.oc1..s1''
            (empty_world [''yes''])) = Return ()"
proof -
  have h1: "''ocid1.bastionsession.oc1..s1'' \<noteq> []" by simp
  have h2: "on_path (demo_env (demo_cli ''ACTIVE'') 1000) ''oci''" by (simp add: demo_env_def)
  have h3: "stdin (empty_world [''yes'']) = ''yes'' # []" by (simp add: empty_world_def)
  have h4: "affirmative ''yes''" by (simp add: affirmative_def lower_def lower_char_def)
  have h5: "returncode (oci_cli (demo_env (demo_cli ''ACTIVE'') 1000) (oci_log (empty_world [''yes'']))
                    [''oci'', ''bastion'', ''session'', ''delete'', ''--session-id'',
                     ''ocid1.bastionsession.oc1..s1'', ''--force'', ''--profile'',
                     OCI_PROFILE (demo_env (demo_cli ''ACTIVE'') 1000)]) = 0"
    by (simp add: demo_defs)
  from delete_session_passes_cli_status[OF h1 h2 h3 h4] h1 h2 h3 h4 h5 show ?thesis
    by simp
qed

subsection \<open>Confirmation\<close>

lemma delete_session_frame:
  "files (snd (delete_session E session_id w)) = files w
   \<and> procs (snd (delete_session E session_id w)) = procs w"
proof (cases "\<exists>response rest. stdin w = response # rest \<and> affirmative response")
  case False
  from delete_session_unconfirmed[OF this] show ?thesis by simp
next
  case True
  then obtain response rest where r: "stdin w = response # rest" "affirmative response" by blast
  show ?thesis
  proof (cases "session_id = []")
    case True
    then show ?thesis by (simp add: delete_session_def log_error_def)
  next
    case False
    obtain k w1 where k: "run_oci_command E
                  [''bastion'', ''session'', ''delete'', ''--session-id'', session_id, ''--force'']
                  (OCI_PROFILE E) False True
                  (w\<lparr>out := out w @ [Warn ''Deleting session...'', Prompt ''Continue? (y/N): ''],
                     stdin := rest\<rparr>) = (k, w1)"
      by (cases "run_oci_command E
                  [''bastion'', ''session'', ''delete'', ''--session-id'', session_id, ''--force'']
                  (OCI_PROFILE E) False True
                  (w\<lparr>out := out w @ [Warn ''Deleting session...'', Prompt ''Continue? (y/N): ''],
                     stdin := rest\<rparr>)")
    from run_oci_command_frame[OF k] have "files w1 = files w" "procs w1 = procs w" by simp_all
    then show ?thesis
      unfolding delete_session_confirmed[OF False r] k
      by (cases k) (simp_all add: seq_def log_success_def)
  qed
qed

lemma delete_session_declined:
  assumes "session_id \<noteq> []" and "stdin w = response # rest" and "\<not> affirmative response"
  shows "fst (delete_session E session_id w) = Return ()
         \<and> oci_log (snd (delete_session E session_id w)) = oci_log w"
  using assms
  by (simp add: delete_session_def confirm_action_cases seq_def log_warn_def log_info_def)

lemma close_tunnel_stdin: "stdin (snd (close_tunnel E local_port w)) = stdin w"
proof (cases "read_tunnel local_port w")
  case None
  then show ?thesis by (simp add: close_tunnel_absent log_error_def)
next
  case (Some r)
  obtain k w1 where k: "os_kill E (rec_pid r) SIGTERM w = (k, w1)"
    by (cases "os_kill E (rec_pid r) SIGTERM w")
  from os_kill_frame[OF k] have f: "stdin w1 = stdin w" by simp
  show ?thesis
    using Some k f
    by (cases k)
       (auto simp: close_tunnel_def unlink_def log_success_def log_warn_def
          split: exn.splits option.splits)
qed

lemma close_all_tunnels_loop_stdin:
  "stdin (snd (close_all_tunnels_loop E ns w)) = stdin w"
proof (induction ns arbitrary: w)
  case Nil
  show ?case by simp
next
  case (Cons n rest)
  show ?case
  proof (cases "map_of (files w) n")
    case None
    then show ?thesis by simp
  next
    case (Some d)
    obtain k w1 where k: "os_kill E (rec_pid d) SIGTERM w = (k, w1)"
      by (cases "os_kill E (rec_pid d) SIGTERM w")
    from os_kill_frame[OF k] have f: "files w1 = files w" "stdin w1 = stdin w"
      by simp_all
    show ?thesis
      using Some k f Cons.IH
      by (cases k)
         (auto simp: unlink_def seq_def log_success_def split: exn.splits option.splits)
  qed
qed

lemma close_all_tunnels_stdin: "stdin (snd (close_all_tunnels E w)) = stdin w"
  by (simp add: close_all_tunnels_def Let_def log_info_def close_all_tunnels_loop_stdin)

text \<open>
  C7 as it is written fails for the tunnels. The user would answer \<^verbatim>\<open>n\<close>, and is not
  asked: \<^verbatim>\<open>close_tunnel\<close> ends the live process 4242 and removes the record of port
  8080, \<^verbatim>\<open>close_all_tunnels\<close> empties the registry, and the answer is still unread.
\<close>

theorem close_tunnel_unconfirmed_counterexample:
  "stdin (registry_world [(4242, 1000)]) = [''n'']
   \<and> \<not> affirmative ''n''
   \<and> read_tunnel ''8080'' (registry_world [(4242, 1000)]) = Some demo_record
   \<and> alive (registry_world [(4242, 1000)]) (rec_pid demo_record)
   \<and> fst (close_tunnel (demo_env (demo_cli ''ACTIVE'') 1000) ''8080''
            (registry_world [(4242, 1000)])) = Return ()
   \<and> read_tunnel ''8080''
        (snd (close_tunnel (demo_env (demo_cli ''ACTIVE'') 1000) ''8080''
                (registry_world [(4242, 1000)]))) = None
   \<and> \<not> alive (snd (close_tunnel (demo_env (demo_cli ''ACTIVE'') 1000) ''8080''
                      (registry_world [(4242, 1000)]))) (rec_pid demo_record)
   \<and> stdin (snd (close_tunnel (demo_env (demo_cli ''ACTIVE'') 1000) ''8080''
                    (registry_world [(4242, 1000)]))) = [''n'']
   \<and> files (snd (close_all_tunnels (demo_env (demo_cli ''ACTIVE'') 1000)
                    (registry_world [(4242, 1000)]))) = []
   \<and> stdin (snd (close_all_tunnels (demo_env (demo_cli ''ACTIVE'') 1000)
                    (registry_world [(4242, 1000)]))) = [''n'']"
  by (simp add: close_tunnel_def close_all_tunnels_def glob_def glob_match_def os_kill_def
      unlink_def seq_def alive_def affirmative_def lower_def lower_char_def run_defs demo_defs)

text \<open>
  C7, as amended. \<^verbatim>\<open>delete_session\<close> runs the OCI client only after the user has
  answered \<^verbatim>\<open>y\<close> or \<^verbatim>\<open>yes\<close>; there is no flag that stands in for the answer. On any
  other answer it returns normally without having run the client, and in every case it
  leaves the registry and the process table as they were. \<^verbatim>\<open>close_tunnel\<close> and
  \<^verbatim>\<open>close_all_tunnels\<close> ask nothing: they read no input.
\<close>

theorem delete_session_needs_confirmation:
  "(oci_log (snd (delete_session E session_id w)) \<noteq> oci_log w \<longrightarrow>
      (\<exists>response rest. stdin w = response # rest \<and> affirmative response))
   \<and> (\<forall>response rest. session_id \<noteq> [] \<and> stdin w = response # rest \<and> \<not> affirmative response \<longrightarrow>
         fst (delete_session E session_id w) = Return ()
         \<and> oci_log (snd (delete_session E session_id w)) = oci_log w)
   \<and> files (snd (delete_session E session_id w)) = files w
   \<and> procs (snd (delete_session E session_id w)) = procs w
   \<and> stdin (snd (close_tunnel E local_port w)) = stdin w
   \<and> stdin (snd (close_all_tunnels E w)) = stdin w"
proof (intro conjI allI impI)
  assume "oci_log (snd (delete_session E session_id w)) \<noteq> oci_log w"
  with delete_session_unconfirmed[of w E session_id]
  show "\<exists>response rest. stdin w = response # rest \<and> affirmative response"
    by blast
next
  fix response rest
  assume a: "session_id \<noteq> [] \<and> stdin w = response # rest \<and> \<not> affirmative response"
  with delete_session_declined[of session_id w response rest E]
  show "fst (delete_session E session_id w) = Return ()"
    and "oci_log (snd (delete_session E session_id w)) = oci_log w"
    by simp_all
next
  show "files (snd (delete_session E session_id w)) = files w"
    and "procs (snd (delete_session E session_id w)) = procs w"
    using delete_session_frame[of E session_id w] by simp_all
next
  show "stdin (snd (close_tunnel E local_port w)) = stdin w"
    by (rule close_tunnel_stdin)
next
  show "stdin (snd (close_all_tunnels E w)) = stdin w"
    by (rule close_all_tunnels_stdin)
qed

theorem delete_session_needs_confirmation_witness:
  "stdin (empty_world [''n'']) = [''n''] \<and> \<not> affirmative ''n''
   \<and> fst (delete_session (demo_env (demo_cli ''ACTIVE'') 1000) ''ocid1.bastionsession.oc1..s1''
            (empty_world [''n''])) = Return ()
   \<and> oci_log (snd (delete_session (demo_env (demo_cli ''ACTIVE'') 1000)
                      ''ocid1.bastionsession.oc1..s1'' (empty_world [''n''])))
       = oci_log (empty_world [''n''])
   \<and> oci_log (snd (delete_session (demo_env (demo_cli ''ACTIVE'') 1000)
                      ''ocid1.bastionsession.oc1..s1'' (empty_world [''Yes''])))
       \<noteq> oci_log (empty_world [''Yes''])
   \<and> (\<exists>response rest. stdin (empty_world [''Yes'']) = response # rest \<and> affirmative response)"
proof -
  let ?E = "demo_env (demo_cli ''ACTIVE'') 1000"
  have h1: "stdin (empty_world [''n'']) = [''n'']" by (simp add: empty_world_def)
  have h2: "\<not> affirmative ''n''" by (simp add: affirmative_def lower_def lower_char_def)
  have h3: "''ocid1.bastionsession.oc1..s1'' \<noteq> []" by simp
  have h4: "oci_log (snd (delete_session ?E ''ocid1.bastionsession.oc1..s1'' (empty_world [''Yes''])))
       \<noteq> oci_log (empty_world [''Yes''])"
    by code_simp
  note declined = delete_session_needs_confirmation[where E = ?E
      and session_id = "''ocid1.bastionsession.oc1..s1''" and w = "empty_world [''n'']"
      and local_port = "''8080''"]
  note confirmed = delete_session_needs_confirmation[where E = ?E
      and session_id = "''ocid1.bastionsession.oc1..s1''" and w = "empty_world [''Yes'']"
      and local_port = "''8080''"]
  from declined have d: "\<forall>response rest. ''ocid1.bastionsession.oc1..s1'' \<noteq> []
         \<and> stdin (empty_world [''n'']) = response # rest \<and> \<not> affirmative response \<longrightarrow>
         fst (delete_session ?E ''ocid1.bastionsession.oc1..s1'' (empty_world [''n''])) = Return ()
         \<and> oci_log (snd (delete_session ?E ''ocid1.bastionsession.oc1..s1'' (empty_world [''n''])))
           = oci_log (empty_world [''n''])"
    by (elim conjE)
  from spec[OF spec[OF d], of "''n''" "[]"] h1 h2 h3
  have r1: "fst (delete_session ?E ''ocid1.bastionsession.oc1..s1'' (empty_world [''n''])) = Return ()
         \<and> oci_log (snd (delete_session ?E ''ocid1.bastionsession.oc1..s1'' (empty_world [''n''])))
           = oci_log (empty_world [''n''])"
    by simp
  from confirmed have c: "oci_log (snd (delete_session ?E ''ocid1.bastionsession.oc1..s1''
                                          (empty_world [''Yes''])))
         \<noteq> oci_log (empty_world [''Yes'']) \<longrightarrow>
      (\<exists>response rest. stdin (empty_world [''Yes'']) = response # rest \<and> affirmative response)"
    by (elim conjE)
  from mp[OF c h4] have r2: "\<exists>response rest. stdin (empty_world [''Yes'']) = response # rest
      \<and> affirmative response" .
  from h1 h2 r1 h4 r2 show ?thesis by (intro conjI) simp_all
qed

end
